theory Spec2Isabelle
  imports Main "HOL-Library.Word"
begin

section \<open>The HTTP navigation walkthrough of examples/test-http-navigate.py\<close>

text \<open>
  The script is one routine, \<open>test_navigate_api\<close>, and two printing helpers. It talks to
  an HTTP server through the \<open>requests\<close> library, prints to the console, sleeps and writes
  one file. The embedding threads a \<open>world\<close> (the chronological trace of everything the
  script did, and the files on disk) through each statement; what the outside answers (the
  server's outcome to a request, whether the disk accepts a write) is the parameter \<open>env\<close>.
  Exceptions are values: a block returns the exception that left it, or none.
  The console is taken to encode every character but a lone surrogate, so that the fixed
  texts of the script always print and only the print of parsed data can raise;
  \<open>time.sleep\<close> is taken to succeed.
\<close>

subsection \<open>Python values\<close>

text \<open>
  What \<open>response.json()\<close> can return: \<open>None\<close>, a bool, an int, a float (its 64 IEEE bits,
  of which the code only ever asks whether it is zero), a str, a list or a dict (its items
  in insertion order, the keys distinct). A str is the list of its characters, one
  \<open>char\<close> each: a \<open>char\<close> below 128 is that ASCII character, and the others stand for
  the characters outside ASCII, the last of them, \<open>surrogate\<close>, for a lone surrogate (what
  the parser makes of an unpaired escape such as \<open>\ud83d\<close>). The script tells characters
  apart only when it compares a key with one of its own ASCII keys; beyond that it counts
  the characters of a str, takes its first 200 and prints them.
\<close>

datatype jvalue =
    JNull
  | JBool bool
  | JInt int
  | JFloat "64 word"
  | JStr string
  | JArr "jvalue list"
  | JObj "(string \<times> jvalue) list"

type_synonym byte = "8 word"

text \<open>
  Exceptions by the classes the handlers tell apart.
  \<open>ConnectionError\<close> is \<open>requests.exceptions.ConnectionError\<close> (and its subclasses);
  \<open>RequestError\<close> any other exception of the requests library, named by its class;
  \<open>KeyboardInterrupt\<close> stands for the \<open>BaseException\<close>s that are not \<open>Exception\<close>s,
  which \<open>except Exception\<close> lets through and a bare \<open>except:\<close> catches.
\<close>

datatype exn =
    ConnectionError
  | RequestError string
  | JSONDecodeError
  | AttributeError
  | TypeError
  | OSError
  | KeyboardInterrupt

fun is_ConnectionError :: "exn \<Rightarrow> bool" where
  "is_ConnectionError ConnectionError = True"
| "is_ConnectionError _ = False"

fun is_Exception :: "exn \<Rightarrow> bool" where
  "is_Exception KeyboardInterrupt = False"
| "is_Exception _ = True"

text \<open>Python's truth value of an object, as \<open>if data:\<close> tests it.\<close>

fun truthy :: "jvalue \<Rightarrow> bool" where
  "truthy JNull = False"
| "truthy (JBool b) = b"
| "truthy (JInt n) = (n \<noteq> 0)"
| "truthy (JFloat f) = (f \<noteq> 0 \<and> f \<noteq> 0x8000000000000000)"
| "truthy (JStr s) = (s \<noteq> [])"
| "truthy (JArr xs) = (xs \<noteq> [])"
| "truthy (JObj kvs) = (kvs \<noteq> [])"

text \<open>
  What the console can print. Encoding a lone surrogate raises \<open>UnicodeEncodeError\<close>, and
  \<open>json.dumps(data, indent=2, ensure_ascii=False)\<close> writes every str of \<open>data\<close>, keys
  and values, as it is: the dumped text prints unless a str in \<open>data\<close> holds a surrogate.
\<close>

definition surrogate :: char where
  "surrogate = CHR 0xFF"

definition encodable :: "string \<Rightarrow> bool" where
  "encodable s = (surrogate \<notin> set s)"

fun printable :: "jvalue \<Rightarrow> bool"
  and printable_all :: "jvalue list \<Rightarrow> bool"
  and printable_items :: "(string \<times> jvalue) list \<Rightarrow> bool" where
  "printable (JStr s) = encodable s"
| "printable (JArr xs) = printable_all xs"
| "printable (JObj kvs) = printable_items kvs"
| "printable _ = True"
| "printable_all [] = True"
| "printable_all (x # xs) = (printable x \<and> printable_all xs)"
| "printable_items [] = True"
| "printable_items ((k, v) # kvs) = (encodable k \<and> printable v \<and> printable_items kvs)"

text \<open>\<open>data.get(key, default)\<close>: only a dict has the method.\<close>

fun py_get :: "jvalue \<Rightarrow> string \<Rightarrow> jvalue \<Rightarrow> exn + jvalue" where
  "py_get (JObj kvs) key dflt = Inr (case map_of kvs key of Some v \<Rightarrow> v | None \<Rightarrow> dflt)"
| "py_get _ key dflt = Inl AttributeError"

text \<open>\<open>len(x)\<close>: a str, a list and a dict have a length.\<close>

fun py_len :: "jvalue \<Rightarrow> exn + nat" where
  "py_len (JStr s) = Inr (length s)"
| "py_len (JArr xs) = Inr (length xs)"
| "py_len (JObj kvs) = Inr (length kvs)"
| "py_len _ = Inl TypeError"

text \<open>
  \<open>x[:200]\<close>: a str and a list are sliced; a dict takes the slice for a key and raises
  (TypeError, unhashable; KeyError from Python 3.12 on); the other values are not
  subscriptable.
\<close>

fun py_prefix200 :: "jvalue \<Rightarrow> exn + jvalue" where
  "py_prefix200 (JStr s) = Inr (JStr (take 200 s))"
| "py_prefix200 (JArr xs) = Inr (JArr (take 200 xs))"
| "py_prefix200 _ = Inl TypeError"

subsection \<open>The session identifier\<close>

text \<open>\<open>str(n)\<close> of an int, in decimal.\<close>

fun digits10 :: "nat \<Rightarrow> string" where
  "digits10 n =
     (if n < 10 then [''0123456789'' ! n]
      else digits10 (n div 10) @ [''0123456789'' ! (n mod 10)])"

declare digits10.simps [simp del]

definition str_int :: "int \<Rightarrow> string" where
  "str_int i = (if i < 0 then CHR ''-'' # digits10 (nat (- i)) else digits10 (nat i))"

definition BASE_URL :: string where
  "BASE_URL = ''http://localhost:3000''"

text \<open>
  \<open>SESSION_ID = f"test-navigate-{int(time.time())}"\<close>, evaluated once when the module is
  loaded; \<open>now\<close> is \<open>int(time.time())\<close>, the clock's seconds.
\<close>

definition SESSION_ID :: "int \<Rightarrow> string" where
  "SESSION_ID now = ''test-navigate-'' @ str_int now"

subsection \<open>Requests, responses and the outside world\<close>

text \<open>
  \<open>requests.post(url, json=body)\<close> and \<open>requests.get(url, params=params)\<close>.
\<close>

datatype request =
    POST string "(string \<times> jvalue) list"
  | GET string "(string \<times> string) list"

text \<open>
  The attributes of a \<open>requests.Response\<close> the script reads. \<open>json\<close> is the outcome of
  \<open>response.json()\<close>: the parsed value, or the exception the parser raised.
\<close>

record response =
  status_code :: int
  json :: "exn + jvalue"
  rtext :: string
  content :: "byte list"

datatype outcome = Response response | Raises exn

text \<open>
  Writing a file: the open fails and nothing is touched, or the write fails after some
  bytes, or all is written.
\<close>

datatype io_outcome = IoOk | OpenFails | WriteFails nat

text \<open>
  The server answers a request given the requests it has received before;
  the disk answers a write of some bytes to a path.
\<close>

record env =
  server :: "request list \<Rightarrow> request \<Rightarrow> outcome"
  disk :: "string \<Rightarrow> byte list \<Rightarrow> io_outcome"

text \<open>
  The fixed texts of the script are Chinese; each is named here by what it says.
  Step descriptions (the second argument of \<open>print_step\<close>) and response titles (the first
  argument of \<open>print_response\<close>), in the order of the source.
\<close>

datatype phrase =
    StartBrowser
  | NavigateToBaidu
  | GetPageTitle
  | NavigateToGitHub
  | GetPageUrl
  | TakeScreenshot
  | GetPageHtml
  | ExecuteJavaScript
  | StopBrowser
  | BrowserStarted
  | NavigatedToBaidu
  | PageTitle
  | NavigatedToGitHub
  | CurrentPageUrl
  | PageHtml
  | ExecuteResult
  | BrowserStopped

text \<open>One constructor for each \<open>print\<close> call of the source, with the values it formats.\<close>

datatype line =
    BannerTop
  | BannerTitle
  | BannerBottom
  | RuleAbove
  | StepTitle nat phrase
  | RuleBelow
  | Plain string
  | Ok phrase
  | StatusCode int
  | ResponseData jvalue
  | ResponseText string
  | TitleContent jvalue
  | UrlLine jvalue
  | ScreenshotOk
  | ImageSize nat
  | SavedTo string
  | HtmlSize nat
  | HtmlPrefix jvalue
  | ResultLine jvalue
  | DoneTop
  | DoneTitle
  | DoneBottom
  | CannotConnect
  | StartServerHint string
  | TestFailed exn

datatype event =
    Print line
  | Req request
  | Sleep nat
  | FileOpen string
  | FileWrite string "byte list"
  | FileClose string

record world =
  trace :: "event list"
  files :: "string \<rightharpoonup> byte list"

text \<open>The requests of a trace, in the order they were issued.\<close>

fun requests_of :: "event list \<Rightarrow> request list" where
  "requests_of [] = []"
| "requests_of (Req r # es) = r # requests_of es"
| "requests_of (_ # es) = requests_of es"

fun sessionId :: "request \<Rightarrow> string option" where
  "sessionId (POST u body) =
     (case map_of body ''sessionId'' of Some (JStr s) \<Rightarrow> Some s | _ \<Rightarrow> None)"
| "sessionId (GET u params) = map_of params ''sessionId''"

subsection \<open>Primitive statements\<close>

definition print :: "line \<Rightarrow> world \<Rightarrow> world" where
  "print l w = w\<lparr>trace := trace w @ [Print l]\<rparr>"

definition sleep :: "nat \<Rightarrow> world \<Rightarrow> world" where
  "sleep n w = w\<lparr>trace := trace w @ [Sleep n]\<rparr>"

definition send :: "env \<Rightarrow> request \<Rightarrow> world \<Rightarrow> (exn + response) \<times> world" where
  "send env r w =
     (case server env (requests_of (trace w)) r of
        Response resp \<Rightarrow> (Inr resp, w\<lparr>trace := trace w @ [Req r]\<rparr>)
      | Raises e \<Rightarrow> (Inl e, w\<lparr>trace := trace w @ [Req r]\<rparr>))"

definition requests_post ::
  "env \<Rightarrow> string \<Rightarrow> (string \<times> jvalue) list \<Rightarrow> world \<Rightarrow> (exn + response) \<times> world" where
  "requests_post env u body w = send env (POST u body) w"

definition requests_get ::
  "env \<Rightarrow> string \<Rightarrow> (string \<times> string) list \<Rightarrow> world \<Rightarrow> (exn + response) \<times> world" where
  "requests_get env u params w = send env (GET u params) w"

text \<open>
  \<open>with open(path, 'wb') as f: f.write(data)\<close>. Opening truncates the file; the
  \<open>with\<close> block closes it whether the write raised or not.
\<close>

definition write_file :: "env \<Rightarrow> string \<Rightarrow> byte list \<Rightarrow> world \<Rightarrow> exn option \<times> world" where
  "write_file env path data w =
     (case disk env path data of
        OpenFails \<Rightarrow> (Some OSError, w)
      | WriteFails n \<Rightarrow>
          (Some OSError,
           w\<lparr>trace := trace w @ [FileOpen path, FileWrite path (take n data), FileClose path],
             files := (files w)(path \<mapsto> take n data)\<rparr>)
      | IoOk \<Rightarrow>
          (None,
           w\<lparr>trace := trace w @ [FileOpen path, FileWrite path data, FileClose path],
             files := (files w)(path \<mapsto> data)\<rparr>))"

subsection \<open>The helpers \<open>print_step\<close> and \<open>print_response\<close>\<close>

definition print_step :: "nat \<Rightarrow> phrase \<Rightarrow> world \<Rightarrow> world" where
  "print_step step_num description w =
     print RuleBelow (print (StepTitle step_num description) (print RuleAbove w))"

text \<open>
  The \<open>try\<close> of \<open>print_response\<close> (lines 26 to 32) holds \<open>response.json()\<close>, the print
  of the dumped data and the \<open>return data\<close>, under a bare \<open>except:\<close>. So whatever
  \<open>response.json()\<close> raises, and likewise the \<open>UnicodeEncodeError\<close> of a print that the
  console cannot encode (which has written nothing), ends in the handler, which prints
  the raw text and returns \<open>None\<close>. The raw text is what \<open>requests\<close> decoded from the
  bytes, replacing what it could not decode, and holds no surrogate.
\<close>

definition print_response :: "phrase \<Rightarrow> response \<Rightarrow> world \<Rightarrow> jvalue \<times> world" where
  "print_response title resp w =
     (let w1 = print (Ok title) w;
          w2 = print (StatusCode (status_code resp)) w1
      in case json resp of
           Inr data \<Rightarrow>
             if printable data
             then (data, print (ResponseData data) w2)
             else (JNull, print (ResponseText (rtext resp)) w2)
         | Inl e \<Rightarrow> (JNull, print (ResponseText (rtext resp)) w2))"

subsection \<open>The ten steps of the \<open>try\<close> block\<close>

text \<open>
  A step returns the exception that left it (\<open>Some e\<close>), or \<open>None\<close> when its last
  statement has run. No value of a step is read by a later one; only the session id is
  shared.
\<close>

type_synonym step = "world \<Rightarrow> exn option \<times> world"

text \<open>Step 1 (source lines 43 to 56): start the browser, wait two seconds.\<close>

definition step1 :: "string \<Rightarrow> env \<Rightarrow> step" where
  "step1 sid env w =
     (let w1 = print_step 1 StartBrowser w;
          w2 = print (Plain (''POST '' @ BASE_URL @ ''/api/browser/start'')) w1
      in case requests_post env (BASE_URL @ ''/api/browser/start'')
                [(''sessionId'', JStr sid), (''headless'', JBool True)] w2 of
           (Inl e, w3) \<Rightarrow> (Some e, w3)
         | (Inr start_response, w3) \<Rightarrow>
             (None, sleep 2 (snd (print_response BrowserStarted start_response w3))))"

text \<open>Step 2 (lines 58 to 71): navigate to Baidu, wait three seconds.\<close>

definition step2 :: "string \<Rightarrow> env \<Rightarrow> step" where
  "step2 sid env w =
     (let w1 = print_step 2 NavigateToBaidu w;
          w2 = print (Plain (''POST '' @ BASE_URL @ ''/api/page/navigate'')) w1
      in case requests_post env (BASE_URL @ ''/api/page/navigate'')
                [(''sessionId'', JStr sid), (''url'', JStr ''https://www.baidu.com'')] w2 of
           (Inl e, w3) \<Rightarrow> (Some e, w3)
         | (Inr navigate_response1, w3) \<Rightarrow>
             (None, sleep 3 (snd (print_response NavigatedToBaidu navigate_response1 w3))))"

text \<open>Step 3 (lines 73 to 83): read the page title.\<close>

definition step3 :: "string \<Rightarrow> env \<Rightarrow> step" where
  "step3 sid env w =
     (let w1 = print_step 3 GetPageTitle w;
          w2 = print (Plain (''GET '' @ BASE_URL @ ''/api/page/title?sessionId='' @ sid)) w1
      in case requests_get env (BASE_URL @ ''/api/page/title'') [(''sessionId'', sid)] w2 of
           (Inl e, w3) \<Rightarrow> (Some e, w3)
         | (Inr title_response1, w3) \<Rightarrow>
             (case print_response PageTitle title_response1 w3 of
                (title_data1, w4) \<Rightarrow>
                  if truthy title_data1
                  then (case py_get title_data1 ''title'' (JStr ''N/A'') of
                          Inl e \<Rightarrow> (Some e, w4)
                        | Inr v \<Rightarrow> (None, print (TitleContent v) w4))
                  else (None, w4)))"

text \<open>Step 4 (lines 85 to 98): navigate to GitHub, wait three seconds.\<close>

definition step4 :: "string \<Rightarrow> env \<Rightarrow> step" where
  "step4 sid env w =
     (let w1 = print_step 4 NavigateToGitHub w;
          w2 = print (Plain (''POST '' @ BASE_URL @ ''/api/page/navigate'')) w1
      in case requests_post env (BASE_URL @ ''/api/page/navigate'')
                [(''sessionId'', JStr sid), (''url'', JStr ''https://github.com'')] w2 of
           (Inl e, w3) \<Rightarrow> (Some e, w3)
         | (Inr navigate_response2, w3) \<Rightarrow>
             (None, sleep 3 (snd (print_response NavigatedToGitHub navigate_response2 w3))))"

text \<open>Step 5 (lines 100 to 110): read the page URL.\<close>

definition step5 :: "string \<Rightarrow> env \<Rightarrow> step" where
  "step5 sid env w =
     (let w1 = print_step 5 GetPageUrl w;
          w2 = print (Plain (''GET '' @ BASE_URL @ ''/api/page/url?sessionId='' @ sid)) w1
      in case requests_get env (BASE_URL @ ''/api/page/url'') [(''sessionId'', sid)] w2 of
           (Inl e, w3) \<Rightarrow> (Some e, w3)
         | (Inr url_response, w3) \<Rightarrow>
             (case print_response CurrentPageUrl url_response w3 of
                (url_data, w4) \<Rightarrow>
                  if truthy url_data
                  then (case py_get url_data ''url'' (JStr ''N/A'') of
                          Inl e \<Rightarrow> (Some e, w4)
                        | Inr v \<Rightarrow> (None, print (UrlLine v) w4))
                  else (None, w4)))"

text \<open>Step 6 (lines 112 to 122): read the page title again.\<close>

definition step6 :: "string \<Rightarrow> env \<Rightarrow> step" where
  "step6 sid env w =
     (let w1 = print_step 6 GetPageTitle w;
          w2 = print (Plain (''GET '' @ BASE_URL @ ''/api/page/title?sessionId='' @ sid)) w1
      in case requests_get env (BASE_URL @ ''/api/page/title'') [(''sessionId'', sid)] w2 of
           (Inl e, w3) \<Rightarrow> (Some e, w3)
         | (Inr title_response2, w3) \<Rightarrow>
             (case print_response PageTitle title_response2 w3 of
                (title_data2, w4) \<Rightarrow>
                  if truthy title_data2
                  then (case py_get title_data2 ''title'' (JStr ''N/A'') of
                          Inl e \<Rightarrow> (Some e, w4)
                        | Inr v \<Rightarrow> (None, print (TitleContent v) w4))
                  else (None, w4)))"

text \<open>
  Step 7 (lines 124 to 143): take a screenshot and save the bytes of the response body
  to \<open>screenshot_<SESSION_ID>.png\<close>.
\<close>

definition screenshot_path :: "string \<Rightarrow> string" where
  "screenshot_path sid = ''screenshot_'' @ sid @ ''.png''"

definition step7 :: "string \<Rightarrow> env \<Rightarrow> step" where
  "step7 sid env w =
     (let w1 = print_step 7 TakeScreenshot w;
          w2 = print (Plain (''POST '' @ BASE_URL @ ''/api/page/screenshot'')) w1
      in case requests_post env (BASE_URL @ ''/api/page/screenshot'')
                [(''sessionId'', JStr sid), (''format'', JStr ''png'')] w2 of
           (Inl e, w3) \<Rightarrow> (Some e, w3)
         | (Inr screenshot_response, w3) \<Rightarrow>
             (let w4 = print ScreenshotOk w3;
                  w5 = print (StatusCode (status_code screenshot_response)) w4;
                  w6 = print (ImageSize (length (content screenshot_response))) w5
              in case write_file env (screenshot_path sid) (content screenshot_response) w6 of
                   (Some e, w7) \<Rightarrow> (Some e, w7)
                 | (None, w7) \<Rightarrow> (None, print (SavedTo (screenshot_path sid)) w7)))"

text \<open>Step 8 (lines 145 to 157): read the page HTML, report its length and first 200 characters.\<close>

definition step8 :: "string \<Rightarrow> env \<Rightarrow> step" where
  "step8 sid env w =
     (let w1 = print_step 8 GetPageHtml w;
          w2 = print (Plain (''GET '' @ BASE_URL @ ''/api/page/html?sessionId='' @ sid)) w1
      in case requests_get env (BASE_URL @ ''/api/page/html'') [(''sessionId'', sid)] w2 of
           (Inl e, w3) \<Rightarrow> (Some e, w3)
         | (Inr html_response, w3) \<Rightarrow>
             (case print_response PageHtml html_response w3 of
                (html_data, w4) \<Rightarrow>
                  if truthy html_data
                  then (case py_get html_data ''html'' (JStr []) of
                          Inl e \<Rightarrow> (Some e, w4)
                        | Inr html_content \<Rightarrow>
                            (case py_len html_content of
                               Inl e \<Rightarrow> (Some e, w4)
                             | Inr n \<Rightarrow>
                                 (let w5 = print (HtmlSize n) w4
                                  in case py_prefix200 html_content of
                                       Inl e \<Rightarrow> (Some e, w5)
                                     | Inr p \<Rightarrow> (None, print (HtmlPrefix p) w5))))
                  else (None, w4)))"

text \<open>Step 9 (lines 159 to 172): execute a script in the page.\<close>

definition step9 :: "string \<Rightarrow> env \<Rightarrow> step" where
  "step9 sid env w =
     (let w1 = print_step 9 ExecuteJavaScript w;
          w2 = print (Plain (''POST '' @ BASE_URL @ ''/api/page/execute'')) w1
      in case requests_post env (BASE_URL @ ''/api/page/execute'')
                [(''sessionId'', JStr sid), (''script'', JStr ''document.location.href'')] w2 of
           (Inl e, w3) \<Rightarrow> (Some e, w3)
         | (Inr script_response, w3) \<Rightarrow>
             (case print_response ExecuteResult script_response w3 of
                (script_data, w4) \<Rightarrow>
                  if truthy script_data
                  then (case py_get script_data ''result'' (JStr ''N/A'') of
                          Inl e \<Rightarrow> (Some e, w4)
                        | Inr v \<Rightarrow> (None, print (ResultLine v) w4))
                  else (None, w4)))"

text \<open>Step 10 (lines 174 to 186): stop the browser and print the closing banner.\<close>

definition step10 :: "string \<Rightarrow> env \<Rightarrow> step" where
  "step10 sid env w =
     (let w1 = print_step 10 StopBrowser w;
          w2 = print (Plain (''POST '' @ BASE_URL @ ''/api/browser/stop'')) w1
      in case requests_post env (BASE_URL @ ''/api/browser/stop'') [(''sessionId'', JStr sid)] w2 of
           (Inl e, w3) \<Rightarrow> (Some e, w3)
         | (Inr stop_response, w3) \<Rightarrow>
             (None,
              print DoneBottom (print DoneTitle (print DoneTop
                (snd (print_response BrowserStopped stop_response w3))))))"

subsection \<open>The routine \<open>test_navigate_api\<close>\<close>

text \<open>Statements in sequence: the first exception ends the block.\<close>

fun run_steps :: "step list \<Rightarrow> step" where
  "run_steps [] w = (None, w)"
| "run_steps (s # ss) w =
     (case s w of
        (Some e, w') \<Rightarrow> (Some e, w')
      | (None, w') \<Rightarrow> run_steps ss w')"

definition steps :: "string \<Rightarrow> env \<Rightarrow> step list" where
  "steps sid env =
     [step1 sid env, step2 sid env, step3 sid env, step4 sid env, step5 sid env,
      step6 sid env, step7 sid env, step8 sid env, step9 sid env, step10 sid env]"

definition try_body :: "string \<Rightarrow> env \<Rightarrow> step" where
  "try_body sid env = run_steps (steps sid env)"

datatype completion = Returned | Unhandled exn

text \<open>
  The banner, the \<open>try\<close> block and its two handlers (lines 188 to 201), tried in the
  order of the source: \<open>except requests.exceptions.ConnectionError\<close>, then
  \<open>except Exception as e\<close>, whose cleanup request sits in a \<open>try\<close> with a bare
  \<open>except: pass\<close>, so that its outcome is dropped whatever it is.
\<close>

definition test_navigate_api :: "string \<Rightarrow> env \<Rightarrow> world \<Rightarrow> completion \<times> world" where
  "test_navigate_api sid env w =
     (let w1 = print BannerBottom (print BannerTitle (print BannerTop w))
      in case try_body sid env w1 of
           (None, w2) \<Rightarrow> (Returned, w2)
         | (Some e, w2) \<Rightarrow>
             if is_ConnectionError e
             then (Returned, print (StartServerHint ''npm run server'') (print CannotConnect w2))
             else if is_Exception e
             then (let w3 = print (TestFailed e) w2
                   in (Returned,
                       snd (requests_post env (BASE_URL @ ''/api/browser/stop'')
                              [(''sessionId'', JStr sid)] w3)))
             else (Unhandled e, w2))"

definition initial :: "(string \<rightharpoonup> byte list) \<Rightarrow> world" where
  "initial fs = \<lparr>trace = [], files = fs\<rparr>"

text \<open>
  Running the script: the module computes \<open>SESSION_ID\<close> from the clock, then calls
  \<open>test_navigate_api()\<close>. Nothing has happened yet; \<open>fs\<close> is the disk as found.
\<close>

definition main :: "int \<Rightarrow> env \<Rightarrow> (string \<rightharpoonup> byte list) \<Rightarrow> completion \<times> world" where
  "main now env fs = test_navigate_api (SESSION_ID now) env (initial fs)"

subsection \<open>The requests of a full run\<close>

definition start_request :: "string \<Rightarrow> request" where
  "start_request sid =
     POST (BASE_URL @ ''/api/browser/start'') [(''sessionId'', JStr sid), (''headless'', JBool True)]"

definition navigate_request :: "string \<Rightarrow> string \<Rightarrow> request" where
  "navigate_request sid u =
     POST (BASE_URL @ ''/api/page/navigate'') [(''sessionId'', JStr sid), (''url'', JStr u)]"

definition title_request :: "string \<Rightarrow> request" where
  "title_request sid = GET (BASE_URL @ ''/api/page/title'') [(''sessionId'', sid)]"

definition url_request :: "string \<Rightarrow> request" where
  "url_request sid = GET (BASE_URL @ ''/api/page/url'') [(''sessionId'', sid)]"

definition screenshot_request :: "string \<Rightarrow> request" where
  "screenshot_request sid =
     POST (BASE_URL @ ''/api/page/screenshot'') [(''sessionId'', JStr sid), (''format'', JStr ''png'')]"

definition html_request :: "string \<Rightarrow> request" where
  "html_request sid = GET (BASE_URL @ ''/api/page/html'') [(''sessionId'', sid)]"

definition execute_request :: "string \<Rightarrow> request" where
  "execute_request sid =
     POST (BASE_URL @ ''/api/page/execute'')
       [(''sessionId'', JStr sid), (''script'', JStr ''document.location.href'')]"

definition stop_request :: "string \<Rightarrow> request" where
  "stop_request sid = POST (BASE_URL @ ''/api/browser/stop'') [(''sessionId'', JStr sid)]"

definition full_run :: "string \<Rightarrow> request list" where
  "full_run sid =
     [start_request sid,
      navigate_request sid ''https://www.baidu.com'',
      title_request sid,
      navigate_request sid ''https://github.com'',
      url_request sid,
      title_request sid,
      screenshot_request sid,
      html_request sid,
      execute_request sid,
      stop_request sid]"

subsection \<open>Observing a run\<close>

text \<open>
  The \<open>try\<close> block of \<open>test_navigate_api\<close> entered in world \<open>w\<close>: the banner is printed,
  then the ten steps run. \<open>raised\<close> is the exception with which the block ends and that
  the handlers receive; \<open>None\<close> when the block runs to its last statement.
\<close>

definition try_result :: "string \<Rightarrow> env \<Rightarrow> world \<Rightarrow> exn option \<times> world" where
  "try_result sid env w =
     try_body sid env (print BannerBottom (print BannerTitle (print BannerTop w)))"

definition raised :: "string \<Rightarrow> env \<Rightarrow> world \<Rightarrow> exn option" where
  "raised sid env w = fst (try_result sid env w)"

text \<open>The world after some more events.\<close>

definition emit :: "event list \<Rightarrow> world \<Rightarrow> world" where
  "emit es w = w\<lparr>trace := trace w @ es\<rparr>"

text \<open>What \<open>print_response\<close> returns for a response, and the line it prints for the body.\<close>

definition parsed :: "response \<Rightarrow> jvalue" where
  "parsed r =
     (case json r of
        Inr d \<Rightarrow> if printable d then d else JNull
      | Inl e \<Rightarrow> JNull)"

definition body_line :: "response \<Rightarrow> line" where
  "body_line r =
     (case json r of
        Inr d \<Rightarrow> if printable d then ResponseData d else ResponseText (rtext r)
      | Inl e \<Rightarrow> ResponseText (rtext r))"

text \<open>The lines a step prints before its request, and those of \<open>print_response\<close>.\<close>

definition heading :: "nat \<Rightarrow> phrase \<Rightarrow> string \<Rightarrow> event list" where
  "heading n d l = [Print RuleAbove, Print (StepTitle n d), Print RuleBelow, Print (Plain l)]"

definition report :: "phrase \<Rightarrow> response \<Rightarrow> event list" where
  "report t r = [Print (Ok t), Print (StatusCode (status_code r)), Print (body_line r)]"

text \<open>A step that issues exactly the request \<open>q\<close>, however it ends.\<close>

definition issues :: "step \<Rightarrow> request \<Rightarrow> bool" where
  "issues s q = (\<forall>w. requests_of (trace (snd (s w))) = requests_of (trace w) @ [q])"

fun posts_to :: "string \<Rightarrow> request \<Rightarrow> bool" where
  "posts_to path (POST u body) = (u = BASE_URL @ path)"
| "posts_to path (GET u params) = False"

fun gets_from :: "string \<Rightarrow> request \<Rightarrow> bool" where
  "gets_from path (GET u params) = (u = BASE_URL @ path)"
| "gets_from path (POST u body) = False"

text \<open>
  A parsed body on which no field extraction of the script raises: a falsy value (the
  extraction is skipped), or a dict whose \<open>html\<close> item, when there is one, is a str or a
  list. The other keys may be present or missing.
\<close>

fun extraction_safe :: "jvalue \<Rightarrow> bool" where
  "extraction_safe (JObj kvs) =
     (case map_of kvs ''html'' of
        None \<Rightarrow> True
      | Some (JStr s) \<Rightarrow> True
      | Some (JArr xs) \<Rightarrow> True
      | Some _ \<Rightarrow> False)"
| "extraction_safe d = (\<not> truthy d)"

text \<open>
  A server that answers every request with a response (of whatever status code), and a
  disk that takes every write.
\<close>

definition answers_all :: "env \<Rightarrow> bool" where
  "answers_all env =
     ((\<forall>h q. \<exists>r. server env h q = Response r \<and> extraction_safe (parsed r))
      \<and> (\<forall>p d. disk env p d = IoOk))"

subsection \<open>Concrete servers\<close>

text \<open>The bytes of a body that is text.\<close>

definition body_bytes :: "string \<Rightarrow> byte list" where
  "body_bytes s = map of_char s"

text \<open>
  A server in good order: status 200 and a JSON object with every field, and the first
  bytes of a PNG image from the screenshot endpoint.
\<close>

definition ok_response :: response where
  "ok_response =
     \<lparr>status_code = 200,
      json = Inr (JObj [(''success'', JBool True), (''title'', JStr ''Example''),
                        (''url'', JStr ''https://github.com/''),
                        (''html'', JStr ''<html></html>''),
                        (''result'', JStr ''https://github.com/'')]),
      rtext = ''{\"success\": true, \"title\": \"Example\", \"url\": \"https://github.com/\", \"html\": \"<html></html>\", \"result\": \"https://github.com/\"}'',
      content = body_bytes ''{\"success\": true, \"title\": \"Example\", \"url\": \"https://github.com/\", \"html\": \"<html></html>\", \"result\": \"https://github.com/\"}''\<rparr>"

definition png_response :: response where
  "png_response =
     \<lparr>status_code = 200, json = Inl JSONDecodeError, rtext = ''.PNG'',
      content = [0x89, 0x50, 0x4E, 0x47]\<rparr>"

definition ok_env :: env where
  "ok_env =
     \<lparr>server = (\<lambda>h q. if posts_to ''/api/page/screenshot'' q then Response png_response
                       else Response ok_response),
      disk = (\<lambda>p d. IoOk)\<rparr>"

text \<open>No server listening.\<close>

definition offline_env :: env where
  "offline_env = \<lparr>server = (\<lambda>h q. Raises ConnectionError), disk = (\<lambda>p d. IoOk)\<rparr>"

text \<open>
  A server whose JSON bodies are lists, on which \<open>.get\<close> raises, and whose stop endpoint
  is interrupted.
\<close>

definition list_response :: response where
  "list_response =
     \<lparr>status_code = 200, json = Inr (JArr [JInt 1]), rtext = ''[1]'',
      content = body_bytes ''[1]''\<rparr>"

definition list_env :: env where
  "list_env =
     \<lparr>server = (\<lambda>h q. if posts_to ''/api/browser/stop'' q then Raises KeyboardInterrupt
                       else Response list_response),
      disk = (\<lambda>p d. IoOk)\<rparr>"

text \<open>A server that fails every request with status 500 and a JSON object without the fields.\<close>

definition error_response :: response where
  "error_response =
     \<lparr>status_code = 500, json = Inr (JObj [(''error'', JStr ''no such session'')]),
      rtext = ''{\"error\": \"no such session\"}'',
      content = body_bytes ''{\"error\": \"no such session\"}''\<rparr>"

definition error_env :: env where
  "error_env = \<lparr>server = (\<lambda>h q. Response error_response), disk = (\<lambda>p d. IoOk)\<rparr>"

text \<open>
  A response whose JSON body \<open>{"error": "\ud83d"}\<close> parses to an object with a lone
  surrogate; the raw text is the ASCII of the body, escape and all.
\<close>

definition surrogate_body :: string where
  "surrogate_body = ''{\"error\": \"'' @ CHR 0x5C # ''ud83d\"}''"

definition surrogate_response :: response where
  "surrogate_response =
     \<lparr>status_code = 500, json = Inr (JObj [(''error'', JStr [surrogate])]),
      rtext = surrogate_body, content = body_bytes surrogate_body\<rparr>"

text \<open>A server that answers with an HTML page instead of JSON.\<close>

definition html_response :: response where
  "html_response =
     \<lparr>status_code = 502, json = Inl JSONDecodeError, rtext = ''<h1>Bad Gateway</h1>'',
      content = body_bytes ''<h1>Bad Gateway</h1>''\<rparr>"

definition html_env :: env where
  "html_env = \<lparr>server = (\<lambda>h q. Response html_response), disk = (\<lambda>p d. IoOk)\<rparr>"

text \<open>A server that answers with the empty JSON object.\<close>

definition empty_response :: response where
  "empty_response =
     \<lparr>status_code = 200, json = Inr (JObj []), rtext = ''{}'', content = body_bytes ''{}''\<rparr>"

definition empty_env :: env where
  "empty_env = \<lparr>server = (\<lambda>h q. Response empty_response), disk = (\<lambda>p d. IoOk)\<rparr>"

text \<open>The mock title endpoint of the specification.\<close>

definition example_response :: response where
  "example_response =
     \<lparr>status_code = 200, json = Inr (JObj [(''title'', JStr ''Example'')]),
      rtext = ''{\"title\": \"Example\"}'',
      content = body_bytes ''{\"title\": \"Example\"}''\<rparr>"

definition example_env :: env where
  "example_env = \<lparr>server = (\<lambda>h q. Response example_response), disk = (\<lambda>p d. IoOk)\<rparr>"

section \<open>Facts about the embedding\<close>

subsection \<open>Traces\<close>

lemma requests_of_append [simp]: "requests_of (xs @ ys) = requests_of xs @ requests_of ys"
  by (induction xs rule: requests_of.induct) simp_all

lemma emit_emit [simp]: "emit es (emit ds w) = emit (ds @ es) w"
  by (simp add: emit_def)

lemma trace_emit [simp]: "trace (emit es w) = trace w @ es"
  by (simp add: emit_def)

lemma files_emit [simp]: "files (emit es w) = files w"
  by (simp add: emit_def)

lemma emit_files_update [simp]:
  "emit es (w\<lparr>files := f\<rparr>) = (emit es w)\<lparr>files := f\<rparr>"
  by (simp add: emit_def)

lemma print_emit: "print l w = emit [Print l] w"
  by (simp add: print_def emit_def)

lemma sleep_emit: "sleep n w = emit [Sleep n] w"
  by (simp add: sleep_def emit_def)

lemma print_step_emit:
  "print_step n d w = emit [Print RuleAbove, Print (StepTitle n d), Print RuleBelow] w"
  by (simp add: print_step_def print_emit)

lemma print_response_emit: "print_response t r w = (parsed r, emit (report t r) w)"
  by (simp add: print_response_def parsed_def body_line_def report_def print_emit Let_def
      split: sum.split)

lemma send_emit:
  "send env q w =
     (case server env (requests_of (trace w)) q of Response r \<Rightarrow> Inr r | Raises e \<Rightarrow> Inl e,
      emit [Req q] w)"
  by (simp add: send_def emit_def split: outcome.split)

lemma write_file_emit:
  "write_file env p d w =
    (case disk env p d of
       OpenFails \<Rightarrow> (Some OSError, w)
     | WriteFails n \<Rightarrow>
         (Some OSError,
          (emit [FileOpen p, FileWrite p (take n d), FileClose p] w)\<lparr>files := (files w)(p \<mapsto> take n d)\<rparr>)
     | IoOk \<Rightarrow>
         (None, (emit [FileOpen p, FileWrite p d, FileClose p] w)\<lparr>files := (files w)(p \<mapsto> d)\<rparr>))"
  by (simp add: write_file_def emit_def split: io_outcome.split)

lemmas to_emit = print_emit sleep_emit print_step_emit print_response_emit send_emit
  requests_post_def requests_get_def Let_def

lemma requests_heading [simp]: "requests_of (heading n d l) = []"
  by (simp add: heading_def)

lemma requests_report [simp]: "requests_of (report t r) = []"
  by (simp add: report_def)

lemma requests_initial [simp]: "requests_of (trace (initial fs)) = []"
  by (simp add: initial_def)

subsection \<open>Each step by the outcome of its request\<close>

lemma step1_unfold:
  "step1 sid env w =
     (case server env (requests_of (trace w)) (start_request sid) of
        Raises e \<Rightarrow>
          (Some e, emit (heading 1 StartBrowser (''POST '' @ BASE_URL @ ''/api/browser/start'')
                         @ [Req (start_request sid)]) w)
      | Response r \<Rightarrow>
          (None, emit (heading 1 StartBrowser (''POST '' @ BASE_URL @ ''/api/browser/start'')
                       @ [Req (start_request sid)] @ report BrowserStarted r @ [Sleep 2]) w))"
  by (simp add: step1_def start_request_def heading_def to_emit split: outcome.split)

lemma step2_unfold:
  "step2 sid env w =
     (case server env (requests_of (trace w)) (navigate_request sid ''https://www.baidu.com'') of
        Raises e \<Rightarrow>
          (Some e, emit (heading 2 NavigateToBaidu (''POST '' @ BASE_URL @ ''/api/page/navigate'')
                         @ [Req (navigate_request sid ''https://www.baidu.com'')]) w)
      | Response r \<Rightarrow>
          (None, emit (heading 2 NavigateToBaidu (''POST '' @ BASE_URL @ ''/api/page/navigate'')
                       @ [Req (navigate_request sid ''https://www.baidu.com'')]
                       @ report NavigatedToBaidu r @ [Sleep 3]) w))"
  by (simp add: step2_def navigate_request_def heading_def to_emit split: outcome.split)

lemma step3_unfold:
  "step3 sid env w =
     (case server env (requests_of (trace w)) (title_request sid) of
        Raises e \<Rightarrow>
          (Some e, emit (heading 3 GetPageTitle (''GET '' @ BASE_URL @ ''/api/page/title?sessionId='' @ sid)
                         @ [Req (title_request sid)]) w)
      | Response r \<Rightarrow>
          (let w4 = emit (heading 3 GetPageTitle (''GET '' @ BASE_URL @ ''/api/page/title?sessionId='' @ sid)
                          @ [Req (title_request sid)] @ report PageTitle r) w
           in if truthy (parsed r)
              then (case py_get (parsed r) ''title'' (JStr ''N/A'') of
                      Inl e \<Rightarrow> (Some e, w4)
                    | Inr v \<Rightarrow> (None, emit [Print (TitleContent v)] w4))
              else (None, w4)))"
  by (simp add: step3_def title_request_def heading_def to_emit split: outcome.split sum.split)

lemma step4_unfold:
  "step4 sid env w =
     (case server env (requests_of (trace w)) (navigate_request sid ''https://github.com'') of
        Raises e \<Rightarrow>
          (Some e, emit (heading 4 NavigateToGitHub (''POST '' @ BASE_URL @ ''/api/page/navigate'')
                         @ [Req (navigate_request sid ''https://github.com'')]) w)
      | Response r \<Rightarrow>
          (None, emit (heading 4 NavigateToGitHub (''POST '' @ BASE_URL @ ''/api/page/navigate'')
                       @ [Req (navigate_request sid ''https://github.com'')]
                       @ report NavigatedToGitHub r @ [Sleep 3]) w))"
  by (simp add: step4_def navigate_request_def heading_def to_emit split: outcome.split)

lemma step5_unfold:
  "step5 sid env w =
     (case server env (requests_of (trace w)) (url_request sid) of
        Raises e \<Rightarrow>
          (Some e, emit (heading 5 GetPageUrl (''GET '' @ BASE_URL @ ''/api/page/url?sessionId='' @ sid)
                         @ [Req (url_request sid)]) w)
      | Response r \<Rightarrow>
          (let w4 = emit (heading 5 GetPageUrl (''GET '' @ BASE_URL @ ''/api/page/url?sessionId='' @ sid)
                          @ [Req (url_request sid)] @ report CurrentPageUrl r) w
           in if truthy (parsed r)
              then (case py_get (parsed r) ''url'' (JStr ''N/A'') of
                      Inl e \<Rightarrow> (Some e, w4)
                    | Inr v \<Rightarrow> (None, emit [Print (UrlLine v)] w4))
              else (None, w4)))"
  by (simp add: step5_def url_request_def heading_def to_emit split: outcome.split sum.split)

lemma step6_unfold:
  "step6 sid env w =
     (case server env (requests_of (trace w)) (title_request sid) of
        Raises e \<Rightarrow>
          (Some e, emit (heading 6 GetPageTitle (''GET '' @ BASE_URL @ ''/api/page/title?sessionId='' @ sid)
                         @ [Req (title_request sid)]) w)
      | Response r \<Rightarrow>
          (let w4 = emit (heading 6 GetPageTitle (''GET '' @ BASE_URL @ ''/api/page/title?sessionId='' @ sid)
                          @ [Req (title_request sid)] @ report PageTitle r) w
           in if truthy (parsed r)
              then (case py_get (parsed r) ''title'' (JStr ''N/A'') of
                      Inl e \<Rightarrow> (Some e, w4)
                    | Inr v \<Rightarrow> (None, emit [Print (TitleContent v)] w4))
              else (None, w4)))"
  by (simp add: step6_def title_request_def heading_def to_emit split: outcome.split sum.split)

lemma step7_unfold:
  "step7 sid env w =
     (case server env (requests_of (trace w)) (screenshot_request sid) of
        Raises e \<Rightarrow>
          (Some e, emit (heading 7 TakeScreenshot (''POST '' @ BASE_URL @ ''/api/page/screenshot'')
                         @ [Req (screenshot_request sid)]) w)
      | Response r \<Rightarrow>
          (case disk env (screenshot_path sid) (content r) of
             OpenFails \<Rightarrow>
               (Some OSError,
                emit (heading 7 TakeScreenshot (''POST '' @ BASE_URL @ ''/api/page/screenshot'')
                      @ [Req (screenshot_request sid), Print ScreenshotOk,
                         Print (StatusCode (status_code r)),
                         Print (ImageSize (length (content r)))]) w)
           | WriteFails n \<Rightarrow>
               (Some OSError,
                (emit (heading 7 TakeScreenshot (''POST '' @ BASE_URL @ ''/api/page/screenshot'')
                       @ [Req (screenshot_request sid), Print ScreenshotOk,
                          Print (StatusCode (status_code r)),
                          Print (ImageSize (length (content r))),
                          FileOpen (screenshot_path sid),
                          FileWrite (screenshot_path sid) (take n (content r)),
                          FileClose (screenshot_path sid)]) w)
                \<lparr>files := (files w)(screenshot_path sid \<mapsto> take n (content r))\<rparr>)
           | IoOk \<Rightarrow>
               (None,
                (emit (heading 7 TakeScreenshot (''POST '' @ BASE_URL @ ''/api/page/screenshot'')
                       @ [Req (screenshot_request sid), Print ScreenshotOk,
                          Print (StatusCode (status_code r)),
                          Print (ImageSize (length (content r))),
                          FileOpen (screenshot_path sid),
                          FileWrite (screenshot_path sid) (content r),
                          FileClose (screenshot_path sid),
                          Print (SavedTo (screenshot_path sid))]) w)
                \<lparr>files := (files w)(screenshot_path sid \<mapsto> content r)\<rparr>)))"
  by (simp add: step7_def screenshot_request_def heading_def write_file_emit to_emit
      split: outcome.split io_outcome.split)

lemma step8_unfold:
  "step8 sid env w =
     (case server env (requests_of (trace w)) (html_request sid) of
        Raises e \<Rightarrow>
          (Some e, emit (heading 8 GetPageHtml (''GET '' @ BASE_URL @ ''/api/page/html?sessionId='' @ sid)
                         @ [Req (html_request sid)]) w)
      | Response r \<Rightarrow>
          (let w4 = emit (heading 8 GetPageHtml (''GET '' @ BASE_URL @ ''/api/page/html?sessionId='' @ sid)
                          @ [Req (html_request sid)] @ report PageHtml r) w
           in if truthy (parsed r)
              then (case py_get (parsed r) ''html'' (JStr []) of
                      Inl e \<Rightarrow> (Some e, w4)
                    | Inr html_content \<Rightarrow>
                        (case py_len html_content of
                           Inl e \<Rightarrow> (Some e, w4)
                         | Inr n \<Rightarrow>
                             (case py_prefix200 html_content of
                                Inl e \<Rightarrow> (Some e, emit [Print (HtmlSize n)] w4)
                              | Inr p \<Rightarrow> (None, emit [Print (HtmlSize n), Print (HtmlPrefix p)] w4))))
              else (None, w4)))"
  by (simp add: step8_def html_request_def heading_def to_emit split: outcome.split sum.split)

lemma step9_unfold:
  "step9 sid env w =
     (case server env (requests_of (trace w)) (execute_request sid) of
        Raises e \<Rightarrow>
          (Some e, emit (heading 9 ExecuteJavaScript (''POST '' @ BASE_URL @ ''/api/page/execute'')
                         @ [Req (execute_request sid)]) w)
      | Response r \<Rightarrow>
          (let w4 = emit (heading 9 ExecuteJavaScript (''POST '' @ BASE_URL @ ''/api/page/execute'')
                          @ [Req (execute_request sid)] @ report ExecuteResult r) w
           in if truthy (parsed r)
              then (case py_get (parsed r) ''result'' (JStr ''N/A'') of
                      Inl e \<Rightarrow> (Some e, w4)
                    | Inr v \<Rightarrow> (None, emit [Print (ResultLine v)] w4))
              else (None, w4)))"
  by (simp add: step9_def execute_request_def heading_def to_emit split: outcome.split sum.split)

lemma step10_unfold:
  "step10 sid env w =
     (case server env (requests_of (trace w)) (stop_request sid) of
        Raises e \<Rightarrow>
          (Some e, emit (heading 10 StopBrowser (''POST '' @ BASE_URL @ ''/api/browser/stop'')
                         @ [Req (stop_request sid)]) w)
      | Response r \<Rightarrow>
          (None, emit (heading 10 StopBrowser (''POST '' @ BASE_URL @ ''/api/browser/stop'')
                       @ [Req (stop_request sid)] @ report BrowserStopped r
                       @ [Print DoneTop, Print DoneTitle, Print DoneBottom]) w))"
  by (simp add: step10_def stop_request_def heading_def to_emit split: outcome.split)

lemmas step_unfolds = step1_unfold step2_unfold step3_unfold step4_unfold step5_unfold
  step6_unfold step7_unfold step8_unfold step9_unfold step10_unfold

subsection \<open>Every step issues one request\<close>

lemma issues_step1: "issues (step1 sid env) (start_request sid)"
  by (simp add: issues_def step1_unfold split: outcome.split)

lemma issues_step2: "issues (step2 sid env) (navigate_request sid ''https://www.baidu.com'')"
  by (simp add: issues_def step2_unfold split: outcome.split)

lemma issues_step3: "issues (step3 sid env) (title_request sid)"
  by (simp add: issues_def step3_unfold Let_def split: outcome.split sum.split)

lemma issues_step4: "issues (step4 sid env) (navigate_request sid ''https://github.com'')"
  by (simp add: issues_def step4_unfold split: outcome.split)

lemma issues_step5: "issues (step5 sid env) (url_request sid)"
  by (simp add: issues_def step5_unfold Let_def split: outcome.split sum.split)

lemma issues_step6: "issues (step6 sid env) (title_request sid)"
  by (simp add: issues_def step6_unfold Let_def split: outcome.split sum.split)

lemma issues_step7: "issues (step7 sid env) (screenshot_request sid)"
  by (simp add: issues_def step7_unfold split: outcome.split io_outcome.split)

lemma issues_step8: "issues (step8 sid env) (html_request sid)"
  by (simp add: issues_def step8_unfold Let_def split: outcome.split sum.split)

lemma issues_step9: "issues (step9 sid env) (execute_request sid)"
  by (simp add: issues_def step9_unfold Let_def split: outcome.split sum.split)

lemma issues_step10: "issues (step10 sid env) (stop_request sid)"
  by (simp add: issues_def step10_unfold split: outcome.split)

lemma issues_steps: "list_all2 issues (steps sid env) (full_run sid)"
  by (simp add: steps_def full_run_def issues_step1 issues_step2 issues_step3 issues_step4
      issues_step5 issues_step6 issues_step7 issues_step8 issues_step9 issues_step10)

text \<open>
  A block of such steps issues a prefix of their requests: all of them when it runs to
  its end, and at least the first in any case.
\<close>

lemma run_steps_Cons_None: "s w = (None, w') \<Longrightarrow> run_steps (s # ss) w = run_steps ss w'"
  by simp

lemma run_steps_Cons_Some: "s w = (Some e, w') \<Longrightarrow> run_steps (s # ss) w = (Some e, w')"
  by simp

lemma run_steps_requests:
  assumes "list_all2 issues ss qs"
  shows "\<exists>n\<le>length qs.
           requests_of (trace (snd (run_steps ss w))) = requests_of (trace w) @ take n qs
           \<and> (fst (run_steps ss w) = None \<longrightarrow> n = length qs)
           \<and> (qs \<noteq> [] \<longrightarrow> 0 < n)"
  using assms
proof (induction ss qs arbitrary: w rule: list_all2_induct)
  case Nil
  show ?case by simp
next
  case (Cons s ss q qs)
  from Cons.hyps(1) have one: "requests_of (trace (snd (s w))) = requests_of (trace w) @ [q]"
    unfolding issues_def by blast
  obtain r w' where sw: "s w = (r, w')" by (cases "s w")
  from one sw have w': "requests_of (trace w') = requests_of (trace w) @ [q]" by simp
  show ?case
  proof (cases r)
    case None
    from Cons.IH [of w'] obtain n where n: "n \<le> length qs"
      "requests_of (trace (snd (run_steps ss w'))) = requests_of (trace w') @ take n qs"
      "fst (run_steps ss w') = None \<longrightarrow> n = length qs"
      by (elim exE conjE)
    have run: "run_steps (s # ss) w = run_steps ss w'"
      using sw None by (simp only: run_steps_Cons_None)
    show ?thesis
    proof (intro exI [of _ "Suc n"] conjI)
      show "Suc n \<le> length (q # qs)" using n(1) by simp
      show "requests_of (trace (snd (run_steps (s # ss) w))) = requests_of (trace w) @ take (Suc n) (q # qs)"
        by (simp only: run n(2) w') simp
      show "fst (run_steps (s # ss) w) = None \<longrightarrow> Suc n = length (q # qs)"
        using n(3) by (simp only: run) simp
      show "q # qs \<noteq> [] \<longrightarrow> 0 < Suc n" by simp
    qed
  next
    case (Some e)
    have run: "run_steps (s # ss) w = (Some e, w')"
      using sw Some by (simp only: run_steps_Cons_Some)
    show ?thesis
    proof (intro exI [of _ "Suc 0"] conjI)
      show "Suc 0 \<le> length (q # qs)" by simp
      show "requests_of (trace (snd (run_steps (s # ss) w))) = requests_of (trace w) @ take (Suc 0) (q # qs)"
        by (simp only: run snd_conv w') simp
      show "fst (run_steps (s # ss) w) = None \<longrightarrow> Suc 0 = length (q # qs)"
        by (simp only: run) simp
      show "q # qs \<noteq> [] \<longrightarrow> 0 < Suc 0" by simp
    qed
  qed
qed

lemma length_full_run: "length (full_run sid) = 10"
  by (simp add: full_run_def)

lemma try_result_requests:
  "\<exists>n. 0 < n \<and> n \<le> 10
       \<and> requests_of (trace (snd (try_result sid env w))) = requests_of (trace w) @ take n (full_run sid)
       \<and> (raised sid env w = None \<longrightarrow> n = 10)"
proof -
  define w1 where "w1 = print BannerBottom (print BannerTitle (print BannerTop w))"
  have w1: "requests_of (trace w1) = requests_of (trace w)"
    by (simp add: w1_def print_emit)
  have ne: "full_run sid \<noteq> []"
    by (simp add: full_run_def)
  have tr: "try_result sid env w = run_steps (steps sid env) w1"
    by (simp add: try_result_def try_body_def w1_def)
  from run_steps_requests [OF issues_steps, of sid env w1]
  obtain n where n: "n \<le> length (full_run sid)"
    "requests_of (trace (snd (run_steps (steps sid env) w1)))
       = requests_of (trace w1) @ take n (full_run sid)"
    "fst (run_steps (steps sid env) w1) = None \<longrightarrow> n = length (full_run sid)"
    "full_run sid \<noteq> [] \<longrightarrow> 0 < n"
    by (elim exE conjE)
  show ?thesis
  proof (intro exI [of _ n] conjI)
    show "0 < n" using n(4) ne by simp
    show "n \<le> 10" using n(1) by (simp add: length_full_run)
    show "requests_of (trace (snd (try_result sid env w))) = requests_of (trace w) @ take n (full_run sid)"
      by (simp only: tr n(2) w1)
    show "raised sid env w = None \<longrightarrow> n = 10"
      using n(3) by (simp add: raised_def tr length_full_run)
  qed
qed

text \<open>A block whose first \<open>k\<close> steps complete and whose next step raises ends there.\<close>

lemma run_steps_failing:
  assumes "k < length ss" and "run_steps (take k ss) w = (None, wk)"
    and "(ss ! k) wk = (Some e, w')"
  shows "run_steps ss w = (Some e, w')"
  using assms
proof (induction ss arbitrary: k w)
  case Nil
  then show ?case by simp
next
  case (Cons s ss)
  show ?case
  proof (cases k)
    case 0
    with Cons.prems show ?thesis by simp
  next
    case (Suc j)
    obtain r w1 where sw: "s w = (r, w1)" by (cases "s w")
    from Cons.prems(2) Suc sw have r: "r = None"
      by (cases r) simp_all
    from Cons.prems(1) Suc have "j < length ss" by simp
    moreover from Cons.prems(2) Suc sw r have "run_steps (take j ss) w1 = (None, wk)"
      by simp
    moreover from Cons.prems(3) Suc have "(ss ! j) wk = (Some e, w')" by simp
    ultimately have "run_steps ss w1 = (Some e, w')"
      by (rule Cons.IH)
    with sw r show ?thesis by simp
  qed
qed

lemma run_steps_failing_requests:
  assumes "list_all2 issues ss qs" and "k < length ss"
    and "run_steps (take k ss) w = (None, wk)" and "(ss ! k) wk = (Some e, w')"
  shows "requests_of (trace w') = requests_of (trace w) @ take (Suc k) qs"
proof -
  from assms(1) have len: "length ss = length qs"
    by (rule list_all2_lengthD)
  from assms(1) have "list_all2 issues (take k ss) (take k qs)"
    by (rule list_all2_takeI)
  from run_steps_requests [OF this, of w]
  obtain n where n:
    "requests_of (trace (snd (run_steps (take k ss) w))) = requests_of (trace w) @ take n (take k qs)"
    "fst (run_steps (take k ss) w) = None \<longrightarrow> n = length (take k qs)"
    by (elim exE conjE)
  from n(2) assms(2,3) len have "n = k" by simp
  with n(1) assms(3) have wk: "requests_of (trace wk) = requests_of (trace w) @ take k qs"
    by simp
  from assms(1,2) have "issues (ss ! k) (qs ! k)"
    by (simp add: list_all2_nthD)
  then have "requests_of (trace (snd ((ss ! k) wk))) = requests_of (trace wk) @ [qs ! k]"
    by (simp add: issues_def)
  with assms(4) wk have "requests_of (trace w') = requests_of (trace w) @ take k qs @ [qs ! k]"
    by simp
  with assms(2) len show ?thesis
    by (simp add: take_Suc_conv_app_nth)
qed

text \<open>Every block that ends with an exception is of this form.\<close>

lemma run_steps_failing_step:
  assumes "run_steps ss w = (Some e, w')"
  shows "\<exists>k wk. k < length ss \<and> run_steps (take k ss) w = (None, wk) \<and> (ss ! k) wk = (Some e, w')"
  using assms
proof (induction ss arbitrary: w)
  case Nil
  then show ?case by simp
next
  case (Cons s ss)
  obtain r w1 where sw: "s w = (r, w1)" by (cases "s w")
  show ?case
  proof (cases r)
    case None
    with Cons.prems sw have "run_steps ss w1 = (Some e, w')" by simp
    from Cons.IH [OF this] obtain k wk where k: "k < length ss"
      "run_steps (take k ss) w1 = (None, wk)" "(ss ! k) wk = (Some e, w')"
      by (elim exE conjE)
    from k sw None have "Suc k < length (s # ss) \<and> run_steps (take (Suc k) (s # ss)) w = (None, wk)
        \<and> ((s # ss) ! Suc k) wk = (Some e, w')"
      by simp
    then show ?thesis by blast
  next
    case (Some e')
    with Cons.prems sw have "0 < length (s # ss) \<and> run_steps (take 0 (s # ss)) w = (None, w)
        \<and> ((s # ss) ! 0) w = (Some e, w')"
      by simp
    then show ?thesis by blast
  qed
qed

lemma raised_failing_step:
  assumes "raised sid env w = Some e"
  shows "\<exists>k wk w'. k < 10
    \<and> run_steps (take k (steps sid env))
         (print BannerBottom (print BannerTitle (print BannerTop w))) = (None, wk)
    \<and> (steps sid env ! k) wk = (Some e, w')"
proof -
  obtain w' where "run_steps (steps sid env)
      (print BannerBottom (print BannerTitle (print BannerTop w))) = (Some e, w')"
    using assms by (cases "try_result sid env w") (simp add: raised_def try_result_def try_body_def)
  from run_steps_failing_step [OF this] obtain k wk where
    "k < length (steps sid env)"
    "run_steps (take k (steps sid env))
       (print BannerBottom (print BannerTitle (print BannerTop w))) = (None, wk)"
    "(steps sid env ! k) wk = (Some e, w')"
    by (elim exE conjE)
  moreover have "length (steps sid env) = 10"
    by (simp add: steps_def)
  ultimately show ?thesis by auto
qed

lemma falsy_printable: "\<not> truthy d \<Longrightarrow> printable d"
  by (cases d) (simp_all add: encodable_def)

subsection \<open>The routine by the outcome of its \<open>try\<close> block\<close>

lemma test_navigate_api_unfold:
  "test_navigate_api sid env w =
     (case raised sid env w of
        None \<Rightarrow> (Returned, snd (try_result sid env w))
      | Some e \<Rightarrow>
          if is_ConnectionError e
          then (Returned,
                emit [Print CannotConnect, Print (StartServerHint ''npm run server'')]
                  (snd (try_result sid env w)))
          else if is_Exception e
          then (Returned,
                emit [Print (TestFailed e), Req (stop_request sid)] (snd (try_result sid env w)))
          else (Unhandled e, snd (try_result sid env w)))"
  by (cases "try_result sid env w")
     (simp add: test_navigate_api_def raised_def try_result_def stop_request_def to_emit
      split: option.split)

text \<open>The requests of a whole run: a prefix of the full run, then the cleanup request if any.\<close>

lemma test_navigate_api_requests:
  "\<exists>n. 0 < n \<and> n \<le> 10
       \<and> requests_of (trace (snd (test_navigate_api sid env w)))
           = requests_of (trace w) @ take n (full_run sid)
             @ (case raised sid env w of
                  None \<Rightarrow> []
                | Some e \<Rightarrow> if \<not> is_ConnectionError e \<and> is_Exception e then [stop_request sid] else [])
       \<and> (raised sid env w = None \<longrightarrow> n = 10)"
proof -
  from try_result_requests [of sid env w]
  obtain n where n: "0 < n" "n \<le> 10"
    "requests_of (trace (snd (try_result sid env w))) = requests_of (trace w) @ take n (full_run sid)"
    "raised sid env w = None \<longrightarrow> n = 10"
    by (elim exE conjE)
  show ?thesis
  proof (intro exI [of _ n] conjI)
    show "requests_of (trace (snd (test_navigate_api sid env w)))
           = requests_of (trace w) @ take n (full_run sid)
             @ (case raised sid env w of
                  None \<Rightarrow> []
                | Some e \<Rightarrow> if \<not> is_ConnectionError e \<and> is_Exception e then [stop_request sid] else [])"
      by (simp add: test_navigate_api_unfold n(3) split: option.split)
  qed (use n in simp_all)
qed

lemma main_requests_success:
  assumes "raised (SESSION_ID now) env (initial fs) = None"
  shows "requests_of (trace (snd (main now env fs))) = full_run (SESSION_ID now)"
proof -
  from test_navigate_api_requests [of "SESSION_ID now" env "initial fs"]
  obtain n where n:
    "requests_of (trace (snd (test_navigate_api (SESSION_ID now) env (initial fs))))
       = requests_of (trace (initial fs)) @ take n (full_run (SESSION_ID now))
         @ (case raised (SESSION_ID now) env (initial fs) of
              None \<Rightarrow> []
            | Some e \<Rightarrow> if \<not> is_ConnectionError e \<and> is_Exception e
                        then [stop_request (SESSION_ID now)] else [])"
    "raised (SESSION_ID now) env (initial fs) = None \<longrightarrow> n = 10"
    by (elim exE conjE)
  from n(2) assms have "n = 10" by simp
  with n(1) assms show ?thesis
    by (simp add: main_def length_full_run)
qed

lemma sessionId_full_run: "q \<in> set (full_run sid) \<Longrightarrow> sessionId q = Some sid"
  by (auto simp: full_run_def start_request_def navigate_request_def title_request_def
      url_request_def screenshot_request_def html_request_def execute_request_def
      stop_request_def)

lemma sessionId_stop: "sessionId (stop_request sid) = Some sid"
  by (simp add: stop_request_def)

lemma map_const: "\<forall>x\<in>set xs. f x = c \<Longrightarrow> map f xs = replicate (length xs) c"
  by (induction xs) simp_all

subsection \<open>Runs that complete\<close>

lemma run_steps_complete:
  "(\<And>s w. s \<in> set ss \<Longrightarrow> fst (s w) = None) \<Longrightarrow> fst (run_steps ss w) = None"
proof (induction ss arbitrary: w)
  case Nil
  show ?case by simp
next
  case (Cons s ss)
  obtain r w' where sw: "s w = (r, w')" by (cases "s w")
  from Cons.prems [of s w] sw have "r = None" by simp
  with sw have "run_steps (s # ss) w = run_steps ss w'" by simp
  moreover have "fst (run_steps ss w') = None"
    by (rule Cons.IH) (simp add: Cons.prems)
  ultimately show ?case by simp
qed

lemma extraction_safe_truthy:
  assumes "extraction_safe d" and "truthy d"
  obtains kvs where "d = JObj kvs"
    and "map_of kvs ''html'' = None \<or> (\<exists>s. map_of kvs ''html'' = Some (JStr s))
         \<or> (\<exists>xs. map_of kvs ''html'' = Some (JArr xs))"
proof (cases d)
  case (JObj kvs)
  with assms(1) have "map_of kvs ''html'' = None \<or> (\<exists>s. map_of kvs ''html'' = Some (JStr s))
         \<or> (\<exists>xs. map_of kvs ''html'' = Some (JArr xs))"
    by (auto split: option.splits jvalue.splits)
  with JObj that show ?thesis by blast
qed (use assms in simp_all)

lemma py_get_safe: "extraction_safe d \<Longrightarrow> truthy d \<Longrightarrow> py_get d k dflt \<noteq> Inl e"
  by (erule (1) extraction_safe_truthy) simp

lemma py_len_safe:
  "extraction_safe d \<Longrightarrow> truthy d \<Longrightarrow> py_get d ''html'' (JStr []) = Inr v \<Longrightarrow> py_len v \<noteq> Inl e"
  by (erule (1) extraction_safe_truthy) auto

lemma py_prefix200_safe:
  "extraction_safe d \<Longrightarrow> truthy d \<Longrightarrow> py_get d ''html'' (JStr []) = Inr v
     \<Longrightarrow> py_prefix200 v \<noteq> Inl e"
  by (erule (1) extraction_safe_truthy) auto

lemma answers_all_steps:
  assumes "answers_all env" and "s \<in> set (steps sid env)"
  shows "fst (s w) = None"
proof -
  from assms(1) have disk: "\<And>p d. disk env p d = IoOk"
    by (simp add: answers_all_def)
  have srv: "\<And>q. \<exists>r. server env (requests_of (trace w)) q = Response r \<and> extraction_safe (parsed r)"
    using assms(1) by (simp add: answers_all_def)
  have s1: "fst (step1 sid env w) = None"
    using srv [of "start_request sid"] by (auto simp: step1_unfold)
  have s2: "fst (step2 sid env w) = None"
    using srv [of "navigate_request sid ''https://www.baidu.com''"] by (auto simp: step2_unfold)
  have s3: "fst (step3 sid env w) = None"
    using srv [of "title_request sid"]
    by (auto simp: step3_unfold Let_def py_get_safe split: sum.split)
  have s4: "fst (step4 sid env w) = None"
    using srv [of "navigate_request sid ''https://github.com''"] by (auto simp: step4_unfold)
  have s5: "fst (step5 sid env w) = None"
    using srv [of "url_request sid"]
    by (auto simp: step5_unfold Let_def py_get_safe split: sum.split)
  have s6: "fst (step6 sid env w) = None"
    using srv [of "title_request sid"]
    by (auto simp: step6_unfold Let_def py_get_safe split: sum.split)
  have s7: "fst (step7 sid env w) = None"
    using srv [of "screenshot_request sid"] by (auto simp: step7_unfold disk)
  have s8: "fst (step8 sid env w) = None"
    using srv [of "html_request sid"]
    by (auto simp: step8_unfold Let_def py_get_safe py_len_safe py_prefix200_safe split: sum.split)
  have s9: "fst (step9 sid env w) = None"
    using srv [of "execute_request sid"]
    by (auto simp: step9_unfold Let_def py_get_safe split: sum.split)
  have s10: "fst (step10 sid env w) = None"
    using srv [of "stop_request sid"] by (auto simp: step10_unfold)
  from assms(2) s1 s2 s3 s4 s5 s6 s7 s8 s9 s10 show ?thesis
    by (auto simp: steps_def)
qed

lemma answers_all_raised: "answers_all env \<Longrightarrow> raised sid env w = None"
  unfolding raised_def try_result_def try_body_def
  by (rule run_steps_complete) (rule answers_all_steps)

subsection \<open>The concrete servers, evaluated\<close>

lemmas run_eval = raised_def try_result_def try_body_def steps_def step_unfolds parsed_def
  print_emit encodable_def surrogate_def

lemmas world_eval = emit_def initial_def heading_def report_def body_line_def encodable_def
  surrogate_def

lemma digits10_small: "n < 10 \<Longrightarrow> digits10 n = [''0123456789'' ! n]"
  by (simp add: digits10.simps)

lemma digits10_large:
  "\<not> n < 10 \<Longrightarrow> digits10 n = digits10 (n div 10) @ [''0123456789'' ! (n mod 10)]"
  by (subst digits10.simps) simp

lemma session_1700000000: "SESSION_ID 1700000000 = ''test-navigate-1700000000''"
  by (simp add: SESSION_ID_def str_int_def digits10_small digits10_large)

lemma ok_env_raised: "raised (SESSION_ID 1700000000) ok_env (initial Map.empty) = None"
  by (simp add: run_eval ok_env_def ok_response_def png_response_def start_request_def
      navigate_request_def title_request_def url_request_def screenshot_request_def
      html_request_def execute_request_def stop_request_def)

lemma list_env_raised:
  "raised ''test-navigate-1700000000'' list_env (initial Map.empty) = Some AttributeError"
  by (simp add: run_eval list_env_def list_response_def title_request_def
      start_request_def navigate_request_def)

lemma html_env_raised: "raised ''s1'' html_env (initial Map.empty) = None"
  by (simp add: run_eval html_env_def html_response_def)

lemma error_env_raised: "raised ''s1'' error_env (initial Map.empty) = None"
  by (simp add: run_eval error_env_def error_response_def)

lemma error_env_requests:
  "requests_of (trace (snd (try_result ''s1'' error_env (initial Map.empty)))) = full_run ''s1''"
  by (simp add: run_eval error_env_def error_response_def full_run_def report_def heading_def)

lemma error_env_last:
  "last (trace (snd (try_result ''s1'' error_env (initial Map.empty)))) = Print DoneBottom"
  by (simp add: run_eval error_env_def error_response_def report_def heading_def)

section \<open>The claims\<close>

subsection \<open>C1: the order of the requests of a successful run\<close>

text \<open>
  Claim C1. In every run whose \<open>try\<close> block ends without an exception, the routine returns
  and the requests issued are exactly the ten of \<open>full_run\<close>: one POST to
  /api/browser/start, first in the list; two POSTs to /api/page/navigate, second and
  fourth, the one to https://www.baidu.com and the other to https://github.com; one POST
  to /api/browser/stop, last; and between the two navigations, third in the list, a GET of
  /api/page/title.
\<close>

theorem full_run_on_success:
  assumes "raised (SESSION_ID now) env (initial fs) = None"
  shows "fst (main now env fs) = Returned \<and>
    (let rs = requests_of (trace (snd (main now env fs)))
     in rs = full_run (SESSION_ID now)
        \<and> filter (posts_to ''/api/browser/start'') rs = [rs ! 0]
        \<and> filter (posts_to ''/api/page/navigate'') rs = [rs ! 1, rs ! 3]
        \<and> rs ! 1 = navigate_request (SESSION_ID now) ''https://www.baidu.com''
        \<and> rs ! 3 = navigate_request (SESSION_ID now) ''https://github.com''
        \<and> rs ! 1 \<noteq> rs ! 3
        \<and> filter (posts_to ''/api/browser/stop'') rs = [rs ! 9]
        \<and> gets_from ''/api/page/title'' (rs ! 2))"
proof -
  have "fst (main now env fs) = Returned"
    using assms by (simp add: main_def test_navigate_api_unfold)
  moreover have "requests_of (trace (snd (main now env fs))) = full_run (SESSION_ID now)"
    using assms by (rule main_requests_success)
  moreover have "(let rs = full_run (SESSION_ID now)
     in rs = full_run (SESSION_ID now)
        \<and> filter (posts_to ''/api/browser/start'') rs = [rs ! 0]
        \<and> filter (posts_to ''/api/page/navigate'') rs = [rs ! 1, rs ! 3]
        \<and> rs ! 1 = navigate_request (SESSION_ID now) ''https://www.baidu.com''
        \<and> rs ! 3 = navigate_request (SESSION_ID now) ''https://github.com''
        \<and> rs ! 1 \<noteq> rs ! 3
        \<and> filter (posts_to ''/api/browser/stop'') rs = [rs ! 9]
        \<and> gets_from ''/api/page/title'' (rs ! 2))"
    by (simp add: Let_def full_run_def start_request_def navigate_request_def title_request_def
      url_request_def screenshot_request_def html_request_def execute_request_def
      stop_request_def)
  ultimately show ?thesis by simp
qed

text \<open>The server in good order, started at second 1700000000 on an empty disk.\<close>

theorem full_run_on_success_witness:
  "raised (SESSION_ID 1700000000) ok_env (initial Map.empty) = None
   \<and> fst (main 1700000000 ok_env Map.empty) = Returned
   \<and> requests_of (trace (snd (main 1700000000 ok_env Map.empty)))
       = full_run ''test-navigate-1700000000''
   \<and> length (filter (posts_to ''/api/page/navigate'')
         (requests_of (trace (snd (main 1700000000 ok_env Map.empty))))) = 2"
proof -
  note t = full_run_on_success [OF ok_env_raised, unfolded Let_def session_1700000000]
  note nav = t [THEN conjunct2, THEN conjunct2, THEN conjunct2, THEN conjunct1]
  have "length (filter (posts_to ''/api/page/navigate'')
         (requests_of (trace (snd (main 1700000000 ok_env Map.empty))))) = 2"
    by (simp only: nav) simp
  with t [THEN conjunct1] t [THEN conjunct2, THEN conjunct1] ok_env_raised show ?thesis
    by simp
qed

subsection \<open>C2: one session id\<close>

text \<open>
  Claim C2. The session id is the text \<open>test-navigate-\<close> followed by the clock's seconds,
  and every request of a run carries it, however the run ends: the start, the
  navigations, the reads, the screenshot, the script, the stop and the cleanup stop.
\<close>

theorem session_id_constant:
  "SESSION_ID now = ''test-navigate-'' @ str_int now \<and>
   (\<forall>q \<in> set (requests_of (trace (snd (main now env fs)))). sessionId q = Some (SESSION_ID now))"
proof (intro conjI ballI)
  show "SESSION_ID now = ''test-navigate-'' @ str_int now"
    by (simp add: SESSION_ID_def)
next
  fix q
  assume q: "q \<in> set (requests_of (trace (snd (main now env fs))))"
  from test_navigate_api_requests [of "SESSION_ID now" env "initial fs"]
  obtain n where n:
    "requests_of (trace (snd (test_navigate_api (SESSION_ID now) env (initial fs))))
       = requests_of (trace (initial fs)) @ take n (full_run (SESSION_ID now))
         @ (case raised (SESSION_ID now) env (initial fs) of
              None \<Rightarrow> []
            | Some e \<Rightarrow> if \<not> is_ConnectionError e \<and> is_Exception e
                        then [stop_request (SESSION_ID now)] else [])"
    by (elim exE conjE)
  from q n have "q \<in> set (take n (full_run (SESSION_ID now))) \<or> q = stop_request (SESSION_ID now)"
    by (auto simp: main_def split: option.splits if_splits)
  then show "sessionId q = Some (SESSION_ID now)"
    by (auto dest: in_set_takeD simp: sessionId_full_run sessionId_stop)
qed

text \<open>
  A run that fails in its third step and then cleans up: four requests, all with the id
  of second 1700000000.
\<close>

theorem session_id_constant_witness:
  "SESSION_ID 1700000000 = ''test-navigate-1700000000''
   \<and> map sessionId (requests_of (trace (snd (main 1700000000 list_env Map.empty))))
       = [Some ''test-navigate-1700000000'', Some ''test-navigate-1700000000'',
          Some ''test-navigate-1700000000'', Some ''test-navigate-1700000000'']"
proof -
  have len: "length (requests_of (trace (snd (main 1700000000 list_env Map.empty)))) = 4"
    unfolding main_def session_1700000000 test_navigate_api_unfold list_env_raised
    by (simp add: run_eval list_env_def list_response_def title_request_def
      start_request_def navigate_request_def)
  from session_id_constant [of 1700000000 list_env Map.empty, THEN conjunct2]
  have "\<forall>q\<in>set (requests_of (trace (snd (main 1700000000 list_env Map.empty)))).
          sessionId q = Some ''test-navigate-1700000000''"
    by (simp only: session_1700000000)
  from map_const [OF this] len show ?thesis
    by (simp add: session_1700000000 numeral_eq_Suc)
qed

subsection \<open>C3: cleanup after a failure\<close>

text \<open>
  Claim C3. Let the first \<open>k\<close> steps of the \<open>try\<close> block complete, and let the next step
  raise an exception that is an \<open>Exception\<close> but not a connection error, leaving the world
  \<open>w'\<close> (every run whose block ends with an exception is of this form, for one \<open>k\<close>
  below ten). Then that exception is the one the handlers receive and nothing more of the block
  runs: the routine ends in \<open>w'\<close> with just two more events, the printed failure with the
  exception and one POST to /api/browser/stop, and it returns whatever the server does
  with that request. The requests of the run are the first \<open>k + 1\<close> of the full run, none
  of the later ones, and then the one cleanup request.
\<close>

theorem cleanup_after_failure:
  assumes "k < 10"
    and "run_steps (take k (steps sid env))
           (print BannerBottom (print BannerTitle (print BannerTop w))) = (None, wk)"
    and "(steps sid env ! k) wk = (Some e, w')"
    and "is_Exception e" and "\<not> is_ConnectionError e"
  shows "raised sid env w = Some e
    \<and> test_navigate_api sid env w =
        (Returned, w'\<lparr>trace := trace w' @ [Print (TestFailed e), Req (stop_request sid)]\<rparr>)
    \<and> requests_of (trace w') = requests_of (trace w) @ take (Suc k) (full_run sid)
    \<and> requests_of (trace (snd (test_navigate_api sid env w)))
        = requests_of (trace w) @ take (Suc k) (full_run sid) @ [stop_request sid]"
proof -
  have len: "k < length (steps sid env)"
    using assms(1) by (simp add: steps_def)
  have tr: "try_result sid env w = (Some e, w')"
    unfolding try_result_def try_body_def
    using len assms(2,3) by (rule run_steps_failing)
  have q: "requests_of (trace w') = requests_of (trace w) @ take (Suc k) (full_run sid)"
    using run_steps_failing_requests [OF issues_steps len assms(2,3)]
    by (simp add: print_emit)
  have r: "raised sid env w = Some e"
    by (simp add: raised_def tr)
  have t: "test_navigate_api sid env w =
        (Returned, w'\<lparr>trace := trace w' @ [Print (TestFailed e), Req (stop_request sid)]\<rparr>)"
    using assms(4,5) by (simp add: test_navigate_api_unfold r tr emit_def)
  have "requests_of (trace (snd (test_navigate_api sid env w)))
        = requests_of (trace w) @ take (Suc k) (full_run sid) @ [stop_request sid]"
    by (simp add: t q)
  with r t q show ?thesis by simp
qed

text \<open>
  The title endpoint answers with a JSON list: the first two steps complete and \<open>.get\<close>
  raises in the third. The cleanup request is itself interrupted, and the routine returns
  all the same, after the start, the first navigation, the title request and the cleanup.
\<close>

theorem cleanup_after_failure_witness:
  "fst (run_steps (take 2 (steps ''s1'' list_env))
          (print BannerBottom (print BannerTitle (print BannerTop (initial Map.empty))))) = None
   \<and> fst ((steps ''s1'' list_env ! 2)
          (snd (run_steps (take 2 (steps ''s1'' list_env))
             (print BannerBottom (print BannerTitle (print BannerTop (initial Map.empty)))))))
       = Some AttributeError
   \<and> is_Exception AttributeError \<and> \<not> is_ConnectionError AttributeError
   \<and> server list_env
        [start_request ''s1'', navigate_request ''s1'' ''https://www.baidu.com'',
         title_request ''s1'']
        (stop_request ''s1'') = Raises KeyboardInterrupt
   \<and> raised ''s1'' list_env (initial Map.empty) = Some AttributeError
   \<and> fst (test_navigate_api ''s1'' list_env (initial Map.empty)) = Returned
   \<and> requests_of (trace (snd (test_navigate_api ''s1'' list_env (initial Map.empty))))
       = [start_request ''s1'', navigate_request ''s1'' ''https://www.baidu.com'',
          title_request ''s1'', stop_request ''s1'']"
proof -
  define w1 where
    "w1 = print BannerBottom (print BannerTitle (print BannerTop (initial Map.empty)))"
  define w2 where "w2 = snd (run_steps (take 2 (steps ''s1'' list_env)) w1)"
  define w3 where "w3 = snd ((steps ''s1'' list_env ! 2) w2)"
  have a: "fst (run_steps (take 2 (steps ''s1'' list_env)) w1) = None"
    by (simp add: w1_def steps_def step_unfolds list_env_def list_response_def
        start_request_def navigate_request_def)
  have b: "fst ((steps ''s1'' list_env ! 2) w2) = Some AttributeError"
    by (simp add: w2_def w1_def steps_def step_unfolds list_env_def list_response_def parsed_def
        start_request_def navigate_request_def title_request_def)
  have h2: "run_steps (take 2 (steps ''s1'' list_env)) w1 = (None, w2)"
    using a by (simp add: w2_def prod_eq_iff)
  have h3: "(steps ''s1'' list_env ! 2) w2 = (Some AttributeError, w3)"
    using b by (simp add: w3_def prod_eq_iff)
  have srv: "server list_env
        [start_request ''s1'', navigate_request ''s1'' ''https://www.baidu.com'',
         title_request ''s1'']
        (stop_request ''s1'') = Raises KeyboardInterrupt"
    by (simp add: list_env_def stop_request_def)
  have k: "(2::nat) < 10" by simp
  note t = cleanup_after_failure [OF k h2 [unfolded w1_def] h3]
  have c: "raised ''s1'' list_env (initial Map.empty) = Some AttributeError"
    using t by simp
  have d: "fst (test_navigate_api ''s1'' list_env (initial Map.empty)) = Returned"
    using t by simp
  have e: "requests_of (trace (snd (test_navigate_api ''s1'' list_env (initial Map.empty))))
       = requests_of (trace (initial Map.empty)) @ take (Suc 2) (full_run ''s1'') @ [stop_request ''s1'']"
    using t by simp
  have f: "requests_of (trace (snd (test_navigate_api ''s1'' list_env (initial Map.empty))))
       = [start_request ''s1'', navigate_request ''s1'' ''https://www.baidu.com'',
          title_request ''s1'', stop_request ''s1'']"
    by (simp only: e) (simp add: full_run_def)
  from a b srv c d f show ?thesis
    by (simp add: w1_def w2_def)
qed

subsection \<open>C4: no server\<close>

text \<open>
  Claim C4. When every request raises a connection error, the routine returns after the
  first one: it has printed the banner and the heading of step 1, tried the start request,
  and printed that it cannot connect and the hint to run \<open>npm run server\<close>. It issues no
  POST to /api/browser/stop and leaves the disk as it was.
\<close>

theorem unreachable_server:
  assumes "\<forall>h q. server env h q = Raises ConnectionError"
  shows "fst (main now env fs) = Returned
    \<and> trace (snd (main now env fs)) =
        [Print BannerTop, Print BannerTitle, Print BannerBottom,
         Print RuleAbove, Print (StepTitle 1 StartBrowser), Print RuleBelow,
         Print (Plain (''POST '' @ BASE_URL @ ''/api/browser/start'')),
         Req (start_request (SESSION_ID now)),
         Print CannotConnect, Print (StartServerHint ''npm run server'')]
    \<and> files (snd (main now env fs)) = fs
    \<and> filter (posts_to ''/api/browser/stop'') (requests_of (trace (snd (main now env fs)))) = []"
proof -
  have r: "try_result (SESSION_ID now) env (initial fs) =
    (Some ConnectionError,
     emit ([Print BannerTop, Print BannerTitle, Print BannerBottom]
           @ heading 1 StartBrowser (''POST '' @ BASE_URL @ ''/api/browser/start'')
           @ [Req (start_request (SESSION_ID now))]) (initial fs))"
    using assms by (simp add: try_result_def try_body_def steps_def step1_unfold print_emit)
  show ?thesis
    unfolding main_def test_navigate_api_unfold raised_def r
    by (simp add: initial_def heading_def start_request_def)
qed

text \<open>No server listening, at second 1700000000.\<close>

theorem unreachable_server_witness:
  "server offline_env [] (start_request ''test-navigate-1700000000'') = Raises ConnectionError
   \<and> fst (main 1700000000 offline_env Map.empty) = Returned
   \<and> last (trace (snd (main 1700000000 offline_env Map.empty)))
       = Print (StartServerHint ''npm run server'')
   \<and> requests_of (trace (snd (main 1700000000 offline_env Map.empty)))
       = [start_request ''test-navigate-1700000000'']"
proof -
  have h: "\<forall>h q. server offline_env h q = Raises ConnectionError"
    by (simp add: offline_env_def)
  from unreachable_server [OF h, of 1700000000 Map.empty] show ?thesis
    by (simp add: session_1700000000 offline_env_def)
qed

subsection \<open>C5: the screenshot file\<close>

text \<open>
  Claim C5. Whenever step 7 completes, the screenshot endpoint has answered with a
  response, and the file \<open>screenshot_<sessionId>.png\<close> holds exactly the bytes of its body,
  as many as the body has. The step has opened the file, written all the bytes and closed
  it, in this order, before its last line is printed, and the steps after it start in the
  world it leaves.
\<close>

theorem screenshot_saved:
  assumes "step7 sid env w = (None, w')"
  shows "\<exists>r. server env (requests_of (trace w)) (screenshot_request sid) = Response r
    \<and> screenshot_path sid = ''screenshot_'' @ sid @ ''.png''
    \<and> files w' = (files w)(screenshot_path sid \<mapsto> content r)
    \<and> length (the (files w' (screenshot_path sid))) = length (content r)
    \<and> trace w' = trace w @
        [Print RuleAbove, Print (StepTitle 7 TakeScreenshot), Print RuleBelow,
         Print (Plain (''POST '' @ BASE_URL @ ''/api/page/screenshot'')),
         Req (screenshot_request sid),
         Print ScreenshotOk, Print (StatusCode (status_code r)),
         Print (ImageSize (length (content r))),
         FileOpen (screenshot_path sid),
         FileWrite (screenshot_path sid) (content r),
         FileClose (screenshot_path sid),
         Print (SavedTo (screenshot_path sid))]
    \<and> run_steps (step7 sid env # rest) w = run_steps rest w'"
proof (cases "server env (requests_of (trace w)) (screenshot_request sid)")
  case (Raises e)
  with assms show ?thesis
    by (simp add: step7_unfold)
next
  case (Response r)
  show ?thesis
  proof (cases "disk env (screenshot_path sid) (content r)")
    case IoOk
    with Response assms have w': "w' =
      (emit (heading 7 TakeScreenshot (''POST '' @ BASE_URL @ ''/api/page/screenshot'')
             @ [Req (screenshot_request sid), Print ScreenshotOk,
                Print (StatusCode (status_code r)),
                Print (ImageSize (length (content r))),
                FileOpen (screenshot_path sid),
                FileWrite (screenshot_path sid) (content r),
                FileClose (screenshot_path sid),
                Print (SavedTo (screenshot_path sid))]) w)
      \<lparr>files := (files w)(screenshot_path sid \<mapsto> content r)\<rparr>"
      by (simp add: step7_unfold)
    have "run_steps (step7 sid env # rest) w = run_steps rest w'"
      using assms by simp
    with Response w' show ?thesis
      by (simp add: heading_def screenshot_path_def)
  next
    case OpenFails
    with Response assms show ?thesis by (simp add: step7_unfold)
  next
    case (WriteFails n)
    with Response assms show ?thesis by (simp add: step7_unfold)
  qed
qed

text \<open>Four bytes from the screenshot endpoint, written to an empty disk.\<close>

theorem screenshot_saved_witness:
  "step7 ''s1'' ok_env (initial Map.empty)
     = (None,
        \<lparr>trace =
           [Print RuleAbove, Print (StepTitle 7 TakeScreenshot), Print RuleBelow,
            Print (Plain ''POST http://localhost:3000/api/page/screenshot''),
            Req (screenshot_request ''s1''),
            Print ScreenshotOk, Print (StatusCode 200), Print (ImageSize 4),
            FileOpen ''screenshot_s1.png'',
            FileWrite ''screenshot_s1.png'' [0x89, 0x50, 0x4E, 0x47],
            FileClose ''screenshot_s1.png'',
            Print (SavedTo ''screenshot_s1.png'')],
         files = [''screenshot_s1.png'' \<mapsto> [0x89, 0x50, 0x4E, 0x47]]\<rparr>)
   \<and> length (the (files (snd (step7 ''s1'' ok_env (initial Map.empty))) ''screenshot_s1.png'')) = 4"
proof -
  have h: "step7 ''s1'' ok_env (initial Map.empty)
     = (None,
        \<lparr>trace =
           [Print RuleAbove, Print (StepTitle 7 TakeScreenshot), Print RuleBelow,
            Print (Plain ''POST http://localhost:3000/api/page/screenshot''),
            Req (screenshot_request ''s1''),
            Print ScreenshotOk, Print (StatusCode 200), Print (ImageSize 4),
            FileOpen ''screenshot_s1.png'',
            FileWrite ''screenshot_s1.png'' [0x89, 0x50, 0x4E, 0x47],
            FileClose ''screenshot_s1.png'',
            Print (SavedTo ''screenshot_s1.png'')],
         files = [''screenshot_s1.png'' \<mapsto> [0x89, 0x50, 0x4E, 0x47]]\<rparr>)"
    by (simp add: step7_unfold ok_env_def png_response_def world_eval screenshot_path_def
        screenshot_request_def BASE_URL_def)
  from screenshot_saved [OF h, of "[]"]
  obtain r where r: "server ok_env (requests_of (trace (initial Map.empty))) (screenshot_request ''s1'') = Response r"
    and len: "length (the (files \<lparr>trace =
           [Print RuleAbove, Print (StepTitle 7 TakeScreenshot), Print RuleBelow,
            Print (Plain ''POST http://localhost:3000/api/page/screenshot''),
            Req (screenshot_request ''s1''),
            Print ScreenshotOk, Print (StatusCode 200), Print (ImageSize 4),
            FileOpen ''screenshot_s1.png'',
            FileWrite ''screenshot_s1.png'' [0x89, 0x50, 0x4E, 0x47],
            FileClose ''screenshot_s1.png'',
            Print (SavedTo ''screenshot_s1.png'')],
         files = [''screenshot_s1.png'' \<mapsto> [0x89, 0x50, 0x4E, 0x47]]\<rparr> (screenshot_path ''s1''))) = length (content r)"
    by (elim exE conjE)
  from r have "r = png_response" by (simp add: ok_env_def screenshot_request_def)
  with len have "length (the (files (snd (step7 ''s1'' ok_env (initial Map.empty))) ''screenshot_s1.png'')) = 4"
    by (simp add: h png_response_def screenshot_path_def)
  with h show ?thesis by simp
qed

subsection \<open>C6: error statuses and missing fields\<close>

text \<open>
  Claim C6 says that a response with an HTTP error status, or a JSON response without the
  expected field, is a fault that aborts the sequence, is reported, and is followed by the
  cleanup request. The script never looks at the status code but to print it, and reads
  each field with a default. Against a server that answers every request with status 500
  and a JSON object that has none of the fields, the \<open>try\<close> block ends without an
  exception: the ten requests of the full run are issued, the stop request once, and the
  last line printed is the end of the closing banner.
\<close>

theorem error_status_is_not_a_fault:
  "server error_env [] (start_request ''s1'') = Response error_response
   \<and> status_code error_response = 500
   \<and> json error_response = Inr (JObj [(''error'', JStr ''no such session'')])
   \<and> map_of [(''error'', JStr ''no such session'')] ''title'' = None
   \<and> raised ''s1'' error_env (initial Map.empty) = None
   \<and> fst (test_navigate_api ''s1'' error_env (initial Map.empty)) = Returned
   \<and> requests_of (trace (snd (test_navigate_api ''s1'' error_env (initial Map.empty)))) = full_run ''s1''
   \<and> length (filter (posts_to ''/api/browser/stop'')
        (requests_of (trace (snd (test_navigate_api ''s1'' error_env (initial Map.empty)))))) = 1
   \<and> last (trace (snd (test_navigate_api ''s1'' error_env (initial Map.empty)))) = Print DoneBottom"
proof -
  have a: "server error_env [] (start_request ''s1'') = Response error_response"
    by (simp add: error_env_def)
  have b: "status_code error_response = 500"
    "json error_response = Inr (JObj [(''error'', JStr ''no such session'')])"
    by (simp_all add: error_response_def)
  have c: "test_navigate_api ''s1'' error_env (initial Map.empty)
             = (Returned, snd (try_result ''s1'' error_env (initial Map.empty)))"
    by (simp add: test_navigate_api_unfold error_env_raised)
  have d: "length (filter (posts_to ''/api/browser/stop'') (full_run ''s1'')) = 1"
    by (simp add: full_run_def start_request_def navigate_request_def title_request_def
      url_request_def screenshot_request_def html_request_def execute_request_def
      stop_request_def)
  from a b d show ?thesis
    by (simp add: c error_env_raised error_env_requests error_env_last)
qed

text \<open>
  Claim C6, amended. A response with an HTTP error status, or a JSON object without the
  expected field, is not a fault. When every request is answered by a response, of
  whatever status code, from which \<open>print_response\<close> returns \<open>None\<close> (the body is no JSON,
  or the console cannot print it) or a falsy value or a JSON object (its \<open>html\<close> item, if
  it has one, a string or a list), and the disk takes the screenshot, then the \<open>try\<close>
  block ends without an exception, the routine returns and the requests issued are
  exactly the ten of the full run, with no cleanup request. A step that receives a
  non-empty JSON object which the console can print and which lacks the step's field
  prints the status code and the object, reports the field by its default and completes:
  \<open>N/A\<close> for the title in both title steps (3 and 6), for the url and for the result; the
  empty string, of length 0, for the html. An empty object, and a parsed body that the
  console cannot print, get no field line: for the latter \<open>print_response\<close> prints the raw
  text and returns \<open>None\<close>, as for a body that is no JSON.
\<close>

theorem error_status_or_missing_field_continues:
  assumes "answers_all env"
  shows "raised sid env w = None
    \<and> fst (test_navigate_api sid env w) = Returned
    \<and> requests_of (trace (snd (test_navigate_api sid env w))) = requests_of (trace w) @ full_run sid
    \<and> (\<forall>r kvs. server env (requests_of (trace w)) (title_request sid) = Response r
          \<and> json r = Inr (JObj kvs) \<and> kvs \<noteq> [] \<and> printable (JObj kvs)
          \<and> map_of kvs ''title'' = None \<longrightarrow>
        step3 sid env w =
          (None,
           w\<lparr>trace := trace w @
              [Print RuleAbove, Print (StepTitle 3 GetPageTitle), Print RuleBelow,
               Print (Plain (''GET '' @ BASE_URL @ ''/api/page/title?sessionId='' @ sid)),
               Req (title_request sid),
               Print (Ok PageTitle), Print (StatusCode (status_code r)),
               Print (ResponseData (JObj kvs)), Print (TitleContent (JStr ''N/A''))]\<rparr>)
        \<and> step6 sid env w =
          (None,
           w\<lparr>trace := trace w @
              [Print RuleAbove, Print (StepTitle 6 GetPageTitle), Print RuleBelow,
               Print (Plain (''GET '' @ BASE_URL @ ''/api/page/title?sessionId='' @ sid)),
               Req (title_request sid),
               Print (Ok PageTitle), Print (StatusCode (status_code r)),
               Print (ResponseData (JObj kvs)), Print (TitleContent (JStr ''N/A''))]\<rparr>))
    \<and> (\<forall>r kvs. server env (requests_of (trace w)) (url_request sid) = Response r
          \<and> json r = Inr (JObj kvs) \<and> kvs \<noteq> [] \<and> printable (JObj kvs)
          \<and> map_of kvs ''url'' = None \<longrightarrow>
        step5 sid env w =
          (None,
           w\<lparr>trace := trace w @
              [Print RuleAbove, Print (StepTitle 5 GetPageUrl), Print RuleBelow,
               Print (Plain (''GET '' @ BASE_URL @ ''/api/page/url?sessionId='' @ sid)),
               Req (url_request sid),
               Print (Ok CurrentPageUrl), Print (StatusCode (status_code r)),
               Print (ResponseData (JObj kvs)), Print (UrlLine (JStr ''N/A''))]\<rparr>))
    \<and> (\<forall>r kvs. server env (requests_of (trace w)) (html_request sid) = Response r
          \<and> json r = Inr (JObj kvs) \<and> kvs \<noteq> [] \<and> printable (JObj kvs)
          \<and> map_of kvs ''html'' = None \<longrightarrow>
        step8 sid env w =
          (None,
           w\<lparr>trace := trace w @
              [Print RuleAbove, Print (StepTitle 8 GetPageHtml), Print RuleBelow,
               Print (Plain (''GET '' @ BASE_URL @ ''/api/page/html?sessionId='' @ sid)),
               Req (html_request sid),
               Print (Ok PageHtml), Print (StatusCode (status_code r)),
               Print (ResponseData (JObj kvs)), Print (HtmlSize 0), Print (HtmlPrefix (JStr []))]\<rparr>))
    \<and> (\<forall>r kvs. server env (requests_of (trace w)) (execute_request sid) = Response r
          \<and> json r = Inr (JObj kvs) \<and> kvs \<noteq> [] \<and> printable (JObj kvs)
          \<and> map_of kvs ''result'' = None \<longrightarrow>
        step9 sid env w =
          (None,
           w\<lparr>trace := trace w @
              [Print RuleAbove, Print (StepTitle 9 ExecuteJavaScript), Print RuleBelow,
               Print (Plain (''POST '' @ BASE_URL @ ''/api/page/execute'')),
               Req (execute_request sid),
               Print (Ok ExecuteResult), Print (StatusCode (status_code r)),
               Print (ResponseData (JObj kvs)), Print (ResultLine (JStr ''N/A''))]\<rparr>))
    \<and> (\<forall>r d t. json r = Inr d \<and> \<not> printable d \<longrightarrow>
        print_response t r w =
          (JNull,
           w\<lparr>trace := trace w @
              [Print (Ok t), Print (StatusCode (status_code r)),
               Print (ResponseText (rtext r))]\<rparr>))"
proof -
  from assms have r: "raised sid env w = None"
    by (rule answers_all_raised)
  from test_navigate_api_requests [of sid env w]
  obtain n where n:
    "requests_of (trace (snd (test_navigate_api sid env w)))
       = requests_of (trace w) @ take n (full_run sid)
         @ (case raised sid env w of
              None \<Rightarrow> []
            | Some e \<Rightarrow> if \<not> is_ConnectionError e \<and> is_Exception e then [stop_request sid] else [])"
    "raised sid env w = None \<longrightarrow> n = 10"
    by (elim exE conjE)
  from n r have q: "requests_of (trace (snd (test_navigate_api sid env w)))
      = requests_of (trace w) @ full_run sid"
    by (simp add: length_full_run)
  have f: "fst (test_navigate_api sid env w) = Returned"
    by (simp add: test_navigate_api_unfold r)
  have s: "\<And>r kvs. json r = Inr (JObj kvs) \<Longrightarrow> printable (JObj kvs) \<Longrightarrow> parsed r = JObj kvs"
    by (simp add: parsed_def)
  have b: "\<And>r kvs. json r = Inr (JObj kvs) \<Longrightarrow> printable (JObj kvs)
      \<Longrightarrow> body_line r = ResponseData (JObj kvs)"
    by (simp add: body_line_def)
  have p: "\<And>r d t. json r = Inr d \<Longrightarrow> \<not> printable d \<Longrightarrow>
        print_response t r w =
          (JNull,
           w\<lparr>trace := trace w @
              [Print (Ok t), Print (StatusCode (status_code r)),
               Print (ResponseText (rtext r))]\<rparr>)"
    by (simp add: print_response_def print_def)
  have fields: "(\<forall>r kvs. server env (requests_of (trace w)) (title_request sid) = Response r
          \<and> json r = Inr (JObj kvs) \<and> kvs \<noteq> [] \<and> printable (JObj kvs)
          \<and> map_of kvs ''title'' = None \<longrightarrow>
        step3 sid env w =
          (None,
           w\<lparr>trace := trace w @
              [Print RuleAbove, Print (StepTitle 3 GetPageTitle), Print RuleBelow,
               Print (Plain (''GET '' @ BASE_URL @ ''/api/page/title?sessionId='' @ sid)),
               Req (title_request sid),
               Print (Ok PageTitle), Print (StatusCode (status_code r)),
               Print (ResponseData (JObj kvs)), Print (TitleContent (JStr ''N/A''))]\<rparr>)
        \<and> step6 sid env w =
          (None,
           w\<lparr>trace := trace w @
              [Print RuleAbove, Print (StepTitle 6 GetPageTitle), Print RuleBelow,
               Print (Plain (''GET '' @ BASE_URL @ ''/api/page/title?sessionId='' @ sid)),
               Req (title_request sid),
               Print (Ok PageTitle), Print (StatusCode (status_code r)),
               Print (ResponseData (JObj kvs)), Print (TitleContent (JStr ''N/A''))]\<rparr>))
    \<and> (\<forall>r kvs. server env (requests_of (trace w)) (url_request sid) = Response r
          \<and> json r = Inr (JObj kvs) \<and> kvs \<noteq> [] \<and> printable (JObj kvs)
          \<and> map_of kvs ''url'' = None \<longrightarrow>
        step5 sid env w =
          (None,
           w\<lparr>trace := trace w @
              [Print RuleAbove, Print (StepTitle 5 GetPageUrl), Print RuleBelow,
               Print (Plain (''GET '' @ BASE_URL @ ''/api/page/url?sessionId='' @ sid)),
               Req (url_request sid),
               Print (Ok CurrentPageUrl), Print (StatusCode (status_code r)),
               Print (ResponseData (JObj kvs)), Print (UrlLine (JStr ''N/A''))]\<rparr>))
    \<and> (\<forall>r kvs. server env (requests_of (trace w)) (html_request sid) = Response r
          \<and> json r = Inr (JObj kvs) \<and> kvs \<noteq> [] \<and> printable (JObj kvs)
          \<and> map_of kvs ''html'' = None \<longrightarrow>
        step8 sid env w =
          (None,
           w\<lparr>trace := trace w @
              [Print RuleAbove, Print (StepTitle 8 GetPageHtml), Print RuleBelow,
               Print (Plain (''GET '' @ BASE_URL @ ''/api/page/html?sessionId='' @ sid)),
               Req (html_request sid),
               Print (Ok PageHtml), Print (StatusCode (status_code r)),
               Print (ResponseData (JObj kvs)), Print (HtmlSize 0), Print (HtmlPrefix (JStr []))]\<rparr>))
    \<and> (\<forall>r kvs. server env (requests_of (trace w)) (execute_request sid) = Response r
          \<and> json r = Inr (JObj kvs) \<and> kvs \<noteq> [] \<and> printable (JObj kvs)
          \<and> map_of kvs ''result'' = None \<longrightarrow>
        step9 sid env w =
          (None,
           w\<lparr>trace := trace w @
              [Print RuleAbove, Print (StepTitle 9 ExecuteJavaScript), Print RuleBelow,
               Print (Plain (''POST '' @ BASE_URL @ ''/api/page/execute'')),
               Req (execute_request sid),
               Print (Ok ExecuteResult), Print (StatusCode (status_code r)),
               Print (ResponseData (JObj kvs)), Print (ResultLine (JStr ''N/A''))]\<rparr>))"
    by (simp add: step3_unfold step5_unfold step6_unfold step8_unfold step9_unfold s b
        emit_def heading_def report_def)
  from r q f fields p show ?thesis
    by blast
qed

text \<open>
  The server that answers 500 to everything; and an object whose one value is a lone
  surrogate, which parses, is not empty, and is not printed.
\<close>

theorem error_status_or_missing_field_continues_witness:
  "answers_all error_env
   \<and> status_code error_response = 500
   \<and> raised ''s1'' error_env (initial Map.empty) = None
   \<and> fst (test_navigate_api ''s1'' error_env (initial Map.empty)) = Returned
   \<and> requests_of (trace (snd (test_navigate_api ''s1'' error_env (initial Map.empty)))) = full_run ''s1''
   \<and> last (trace (snd (step3 ''s1'' error_env (initial Map.empty)))) = Print (TitleContent (JStr ''N/A''))
   \<and> last (trace (snd (step6 ''s1'' error_env (initial Map.empty)))) = Print (TitleContent (JStr ''N/A''))
   \<and> json surrogate_response = Inr (JObj [(''error'', JStr [surrogate])])
   \<and> \<not> printable (JObj [(''error'', JStr [surrogate])])
   \<and> print_response PageTitle surrogate_response (initial Map.empty) =
        (JNull,
         \<lparr>trace = [Print (Ok PageTitle), Print (StatusCode 500),
                   Print (ResponseText surrogate_body)],
          files = Map.empty\<rparr>)"
proof -
  have a: "answers_all error_env"
    by (simp add: answers_all_def error_env_def error_response_def parsed_def encodable_def
        surrogate_def)
  have b: "server error_env (requests_of (trace (initial Map.empty))) (title_request ''s1'')
             = Response error_response
           \<and> json error_response = Inr (JObj [(''error'', JStr ''no such session'')])
           \<and> [(''error'', JStr ''no such session'')] \<noteq> []
           \<and> printable (JObj [(''error'', JStr ''no such session'')])
           \<and> map_of [(''error'', JStr ''no such session'')] ''title'' = None"
    by (simp add: error_env_def error_response_def encodable_def surrogate_def)
  note t = error_status_or_missing_field_continues [OF a, of "''s1''" "initial Map.empty"]
  from t [THEN conjunct2, THEN conjunct2, THEN conjunct2, THEN conjunct1] b
  have s36: "step3 ''s1'' error_env (initial Map.empty) =
          (None,
           (initial Map.empty)\<lparr>trace := trace (initial Map.empty) @
              [Print RuleAbove, Print (StepTitle 3 GetPageTitle), Print RuleBelow,
               Print (Plain (''GET '' @ BASE_URL @ ''/api/page/title?sessionId='' @ ''s1'')),
               Req (title_request ''s1''),
               Print (Ok PageTitle), Print (StatusCode (status_code error_response)),
               Print (ResponseData (JObj [(''error'', JStr ''no such session'')])),
               Print (TitleContent (JStr ''N/A''))]\<rparr>)
        \<and> step6 ''s1'' error_env (initial Map.empty) =
          (None,
           (initial Map.empty)\<lparr>trace := trace (initial Map.empty) @
              [Print RuleAbove, Print (StepTitle 6 GetPageTitle), Print RuleBelow,
               Print (Plain (''GET '' @ BASE_URL @ ''/api/page/title?sessionId='' @ ''s1'')),
               Req (title_request ''s1''),
               Print (Ok PageTitle), Print (StatusCode (status_code error_response)),
               Print (ResponseData (JObj [(''error'', JStr ''no such session'')])),
               Print (TitleContent (JStr ''N/A''))]\<rparr>)"
    by blast
  have c: "last (trace (snd (step3 ''s1'' error_env (initial Map.empty))))
      = Print (TitleContent (JStr ''N/A''))"
    by (simp add: s36 [THEN conjunct1])
  have c6: "last (trace (snd (step6 ''s1'' error_env (initial Map.empty))))
      = Print (TitleContent (JStr ''N/A''))"
    by (simp add: s36 [THEN conjunct2])
  have d: "status_code error_response = 500"
    by (simp add: error_response_def)
  have u: "json surrogate_response = Inr (JObj [(''error'', JStr [surrogate])])
      \<and> \<not> printable (JObj [(''error'', JStr [surrogate])])"
    by (simp add: surrogate_response_def encodable_def)
  from t [THEN conjunct2, THEN conjunct2, THEN conjunct2, THEN conjunct2, THEN conjunct2,
      THEN conjunct2, THEN conjunct2] u
  have "print_response PageTitle surrogate_response (initial Map.empty) =
          (JNull,
           (initial Map.empty)\<lparr>trace := trace (initial Map.empty) @
              [Print (Ok PageTitle), Print (StatusCode (status_code surrogate_response)),
               Print (ResponseText (rtext surrogate_response))]\<rparr>)"
    by blast
  then have v: "print_response PageTitle surrogate_response (initial Map.empty) =
        (JNull,
         \<lparr>trace = [Print (Ok PageTitle), Print (StatusCode 500),
                   Print (ResponseText surrogate_body)],
          files = Map.empty\<rparr>)"
    by (simp add: initial_def surrogate_response_def)
  from a c c6 d u v t [THEN conjunct1] t [THEN conjunct2, THEN conjunct1]
    t [THEN conjunct2, THEN conjunct2, THEN conjunct1]
  show ?thesis by simp
qed

subsection \<open>C7: the title reported\<close>

text \<open>
  Claim C7. When the title endpoint answers with the JSON object \<open>{"title": "Example"}\<close>,
  the step that reads the title (step 3, and again step 6) completes, and the last line it
  prints is the title line with the string \<open>Example\<close>.
\<close>

theorem title_reported:
  assumes "server env (requests_of (trace w)) (title_request sid) = Response r"
    and "json r = Inr (JObj [(''title'', JStr ''Example'')])"
  shows "step3 sid env w =
      (None,
       w\<lparr>trace := trace w @
          [Print RuleAbove, Print (StepTitle 3 GetPageTitle), Print RuleBelow,
           Print (Plain (''GET '' @ BASE_URL @ ''/api/page/title?sessionId='' @ sid)),
           Req (title_request sid),
           Print (Ok PageTitle), Print (StatusCode (status_code r)),
           Print (ResponseData (JObj [(''title'', JStr ''Example'')])),
           Print (TitleContent (JStr ''Example''))]\<rparr>)
    \<and> step6 sid env w =
      (None,
       w\<lparr>trace := trace w @
          [Print RuleAbove, Print (StepTitle 6 GetPageTitle), Print RuleBelow,
           Print (Plain (''GET '' @ BASE_URL @ ''/api/page/title?sessionId='' @ sid)),
           Req (title_request sid),
           Print (Ok PageTitle), Print (StatusCode (status_code r)),
           Print (ResponseData (JObj [(''title'', JStr ''Example'')])),
           Print (TitleContent (JStr ''Example''))]\<rparr>)"
  using assms
  by (simp add: step3_unfold step6_unfold parsed_def world_eval encodable_def surrogate_def)

text \<open>The mock title endpoint.\<close>

theorem title_reported_witness:
  "server example_env [] (title_request ''s1'') = Response example_response
   \<and> json example_response = Inr (JObj [(''title'', JStr ''Example'')])
   \<and> last (trace (snd (step3 ''s1'' example_env (initial Map.empty))))
       = Print (TitleContent (JStr ''Example''))
   \<and> last (trace (snd (step6 ''s1'' example_env (initial Map.empty))))
       = Print (TitleContent (JStr ''Example''))"
proof -
  have a: "server example_env (requests_of (trace (initial Map.empty))) (title_request ''s1'')
             = Response example_response"
    by (simp add: example_env_def)
  have b: "json example_response = Inr (JObj [(''title'', JStr ''Example'')])"
    by (simp add: example_response_def)
  from title_reported [OF a b] a b show ?thesis by simp
qed

subsection \<open>C8: bodies that are not JSON\<close>

text \<open>
  Claim C8. For a response whose body does not parse as JSON, \<open>print_response\<close> prints
  its title, the status code and the body as raw text, and returns \<open>None\<close>. Each step that
  calls it on such a response completes, so that the next step runs.
\<close>

theorem non_json_body_is_not_an_error:
  assumes "json r = Inl e"
  shows "print_response t r w =
      (JNull,
       w\<lparr>trace := trace w @
          [Print (Ok t), Print (StatusCode (status_code r)), Print (ResponseText (rtext r))]\<rparr>)
    \<and> (server env (requests_of (trace w)) (start_request sid) = Response r
         \<longrightarrow> fst (step1 sid env w) = None)
    \<and> (server env (requests_of (trace w)) (navigate_request sid ''https://www.baidu.com'') = Response r
         \<longrightarrow> fst (step2 sid env w) = None)
    \<and> (server env (requests_of (trace w)) (title_request sid) = Response r
         \<longrightarrow> fst (step3 sid env w) = None \<and> fst (step6 sid env w) = None)
    \<and> (server env (requests_of (trace w)) (navigate_request sid ''https://github.com'') = Response r
         \<longrightarrow> fst (step4 sid env w) = None)
    \<and> (server env (requests_of (trace w)) (url_request sid) = Response r
         \<longrightarrow> fst (step5 sid env w) = None)
    \<and> (server env (requests_of (trace w)) (html_request sid) = Response r
         \<longrightarrow> fst (step8 sid env w) = None)
    \<and> (server env (requests_of (trace w)) (execute_request sid) = Response r
         \<longrightarrow> fst (step9 sid env w) = None)
    \<and> (server env (requests_of (trace w)) (stop_request sid) = Response r
         \<longrightarrow> fst (step10 sid env w) = None)"
proof -
  have p: "parsed r = JNull"
    using assms by (simp add: parsed_def)
  have "print_response t r w =
      (JNull,
       w\<lparr>trace := trace w @
          [Print (Ok t), Print (StatusCode (status_code r)), Print (ResponseText (rtext r))]\<rparr>)"
    using assms by (simp add: print_response_def print_def)
  then show ?thesis
    by (simp add: step_unfolds p)
qed

text \<open>
  A gateway that answers every request with an HTML page: the helper prints the page as
  text, step 3 completes, and so does the whole \<open>try\<close> block.
\<close>

theorem non_json_body_is_not_an_error_witness:
  "json html_response = Inl JSONDecodeError
   \<and> server html_env [] (title_request ''s1'') = Response html_response
   \<and> print_response PageTitle html_response (initial Map.empty) =
        (JNull,
         \<lparr>trace = [Print (Ok PageTitle), Print (StatusCode 502),
                   Print (ResponseText ''<h1>Bad Gateway</h1>'')],
          files = Map.empty\<rparr>)
   \<and> fst (step3 ''s1'' html_env (initial Map.empty)) = None
   \<and> raised ''s1'' html_env (initial Map.empty) = None"
proof -
  have a: "json html_response = Inl JSONDecodeError"
    by (simp add: html_response_def)
  have b: "server html_env (requests_of (trace (initial Map.empty))) (title_request ''s1'')
             = Response html_response"
    by (simp add: html_env_def)
  note t = non_json_body_is_not_an_error [OF a, of PageTitle "initial Map.empty" html_env "''s1''"]
  from t [THEN conjunct1]
  have c: "print_response PageTitle html_response (initial Map.empty) =
        (JNull,
         \<lparr>trace = [Print (Ok PageTitle), Print (StatusCode 502),
                   Print (ResponseText ''<h1>Bad Gateway</h1>'')],
          files = Map.empty\<rparr>)"
    by (simp add: initial_def html_response_def)
  from t b have d: "fst (step3 ''s1'' html_env (initial Map.empty)) = None"
    by blast
  from a b c d html_env_raised show ?thesis by simp
qed

subsection \<open>C9: the title is read after each navigation\<close>

text \<open>
  Claim C9. In every run whose \<open>try\<close> block ends without an exception, ten requests are
  issued, of which exactly two are GETs of /api/page/title: the third, between the two
  navigations (second and fourth), and the sixth, after the second navigation.
\<close>

theorem title_read_after_each_navigation:
  assumes "raised (SESSION_ID now) env (initial fs) = None"
  shows "(let rs = requests_of (trace (snd (main now env fs)))
     in length rs = 10
        \<and> filter (gets_from ''/api/page/title'') rs = [rs ! 2, rs ! 5]
        \<and> rs ! 2 = title_request (SESSION_ID now)
        \<and> rs ! 5 = title_request (SESSION_ID now)
        \<and> filter (posts_to ''/api/page/navigate'') rs = [rs ! 1, rs ! 3])"
proof -
  have "requests_of (trace (snd (main now env fs))) = full_run (SESSION_ID now)"
    using assms by (rule main_requests_success)
  moreover have "(let rs = full_run (SESSION_ID now)
     in length rs = 10
        \<and> filter (gets_from ''/api/page/title'') rs = [rs ! 2, rs ! 5]
        \<and> rs ! 2 = title_request (SESSION_ID now)
        \<and> rs ! 5 = title_request (SESSION_ID now)
        \<and> filter (posts_to ''/api/page/navigate'') rs = [rs ! 1, rs ! 3])"
    by (simp add: Let_def full_run_def start_request_def navigate_request_def title_request_def
      url_request_def screenshot_request_def html_request_def execute_request_def
      stop_request_def)
  ultimately show ?thesis by simp
qed

text \<open>The server in good order: the two title requests of the run.\<close>

theorem title_read_after_each_navigation_witness:
  "raised (SESSION_ID 1700000000) ok_env (initial Map.empty) = None
   \<and> filter (gets_from ''/api/page/title'')
        (requests_of (trace (snd (main 1700000000 ok_env Map.empty))))
       = [title_request ''test-navigate-1700000000'', title_request ''test-navigate-1700000000'']"
proof -
  note t = title_read_after_each_navigation [OF ok_env_raised, unfolded Let_def session_1700000000]
  have "filter (gets_from ''/api/page/title'')
        (requests_of (trace (snd (main 1700000000 ok_env Map.empty))))
       = [title_request ''test-navigate-1700000000'', title_request ''test-navigate-1700000000'']"
    by (simp only: t [THEN conjunct2, THEN conjunct1] t [THEN conjunct2, THEN conjunct2, THEN conjunct1]
        t [THEN conjunct2, THEN conjunct2, THEN conjunct2, THEN conjunct1])
  with ok_env_raised show ?thesis by simp
qed

subsection \<open>C10: falsy bodies\<close>

text \<open>
  Claim C10. In the steps that read the title (3 and 6), the url (5), the html (8) and the
  script result (9), a body that parses to a falsy value is treated as a body that does
  not parse: the step completes right after the three lines of \<open>print_response\<close>, with no
  line for the field, not even its default.
\<close>

theorem falsy_body_skips_extraction:
  assumes "json r = Inl e \<or> json r = Inr d \<and> \<not> truthy d"
  shows
    "(server env (requests_of (trace w)) (title_request sid) = Response r \<longrightarrow>
        step3 sid env w =
          (None,
           w\<lparr>trace := trace w @
              [Print RuleAbove, Print (StepTitle 3 GetPageTitle), Print RuleBelow,
               Print (Plain (''GET '' @ BASE_URL @ ''/api/page/title?sessionId='' @ sid)),
               Req (title_request sid),
               Print (Ok PageTitle), Print (StatusCode (status_code r)), Print (body_line r)]\<rparr>)
        \<and> step6 sid env w =
          (None,
           w\<lparr>trace := trace w @
              [Print RuleAbove, Print (StepTitle 6 GetPageTitle), Print RuleBelow,
               Print (Plain (''GET '' @ BASE_URL @ ''/api/page/title?sessionId='' @ sid)),
               Req (title_request sid),
               Print (Ok PageTitle), Print (StatusCode (status_code r)), Print (body_line r)]\<rparr>))
     \<and> (server env (requests_of (trace w)) (url_request sid) = Response r \<longrightarrow>
        step5 sid env w =
          (None,
           w\<lparr>trace := trace w @
              [Print RuleAbove, Print (StepTitle 5 GetPageUrl), Print RuleBelow,
               Print (Plain (''GET '' @ BASE_URL @ ''/api/page/url?sessionId='' @ sid)),
               Req (url_request sid),
               Print (Ok CurrentPageUrl), Print (StatusCode (status_code r)), Print (body_line r)]\<rparr>))
     \<and> (server env (requests_of (trace w)) (html_request sid) = Response r \<longrightarrow>
        step8 sid env w =
          (None,
           w\<lparr>trace := trace w @
              [Print RuleAbove, Print (StepTitle 8 GetPageHtml), Print RuleBelow,
               Print (Plain (''GET '' @ BASE_URL @ ''/api/page/html?sessionId='' @ sid)),
               Req (html_request sid),
               Print (Ok PageHtml), Print (StatusCode (status_code r)), Print (body_line r)]\<rparr>))
     \<and> (server env (requests_of (trace w)) (execute_request sid) = Response r \<longrightarrow>
        step9 sid env w =
          (None,
           w\<lparr>trace := trace w @
              [Print RuleAbove, Print (StepTitle 9 ExecuteJavaScript), Print RuleBelow,
               Print (Plain (''POST '' @ BASE_URL @ ''/api/page/execute'')),
               Req (execute_request sid),
               Print (Ok ExecuteResult), Print (StatusCode (status_code r)), Print (body_line r)]\<rparr>))"
proof -
  have p: "\<not> truthy (parsed r)"
    using assms by (auto simp: parsed_def split: if_splits)
  show ?thesis
    by (simp add: step_unfolds p emit_def heading_def report_def)
qed

text \<open>The empty JSON object is falsy, and so is \<open>null\<close>; step 3 on the empty object.\<close>

theorem falsy_body_skips_extraction_witness:
  "json empty_response = Inr (JObj []) \<and> \<not> truthy (JObj []) \<and> \<not> truthy JNull
   \<and> server empty_env [] (title_request ''s1'') = Response empty_response
   \<and> step3 ''s1'' empty_env (initial Map.empty) =
       (None,
        \<lparr>trace =
           [Print RuleAbove, Print (StepTitle 3 GetPageTitle), Print RuleBelow,
            Print (Plain ''GET http://localhost:3000/api/page/title?sessionId=s1''),
            Req (title_request ''s1''),
            Print (Ok PageTitle), Print (StatusCode 200), Print (ResponseData (JObj []))],
         files = Map.empty\<rparr>)"
proof -
  have a: "json empty_response = Inl JSONDecodeError
           \<or> json empty_response = Inr (JObj []) \<and> \<not> truthy (JObj [])"
    by (simp add: empty_response_def)
  have b: "server empty_env (requests_of (trace (initial Map.empty))) (title_request ''s1'')
             = Response empty_response"
    by (simp add: empty_env_def)
  from falsy_body_skips_extraction [OF a, of empty_env "initial Map.empty" "''s1''", THEN conjunct1] b
  have "step3 ''s1'' empty_env (initial Map.empty) =
          (None,
           (initial Map.empty)\<lparr>trace := trace (initial Map.empty) @
              [Print RuleAbove, Print (StepTitle 3 GetPageTitle), Print RuleBelow,
               Print (Plain (''GET '' @ BASE_URL @ ''/api/page/title?sessionId='' @ ''s1'')),
               Req (title_request ''s1''),
               Print (Ok PageTitle), Print (StatusCode (status_code empty_response)),
               Print (body_line empty_response)]\<rparr>)"
    by blast
  then have "step3 ''s1'' empty_env (initial Map.empty) =
       (None,
        \<lparr>trace =
           [Print RuleAbove, Print (StepTitle 3 GetPageTitle), Print RuleBelow,
            Print (Plain ''GET http://localhost:3000/api/page/title?sessionId=s1''),
            Req (title_request ''s1''),
            Print (Ok PageTitle), Print (StatusCode 200), Print (ResponseData (JObj []))],
         files = Map.empty\<rparr>)"
    by (simp add: initial_def empty_response_def body_line_def BASE_URL_def)
  with b show ?thesis
    by (simp add: empty_response_def)
qed

end
